theory Spec2Isabelle
  imports Complex_Main
begin

section \<open>Strings\<close>

text \<open>
  Python strings are modelled as \<open>string\<close> (lists of 8-bit characters), so the
  development covers ASCII text: \<open>str.lower\<close> maps \<open>A..Z\<close> to \<open>a..z\<close> and leaves
  every other character alone, and \<open>str.split()\<close> cuts at runs of the ASCII
  white-space characters (codes 9..13, 28..31 and 32).
\<close>

definition lower_chr :: "char \<Rightarrow> char" where
  "lower_chr c =
     (let n = (of_char c :: nat) in if 65 \<le> n \<and> n \<le> 90 then char_of (n + 32) else c)"

definition lower :: "string \<Rightarrow> string" where
  "lower s = map lower_chr s"

definition replace_chr :: "char \<Rightarrow> char \<Rightarrow> string \<Rightarrow> string" where
  "replace_chr a b s = map (\<lambda>c. if c = a then b else c) s"

definition is_space :: "char \<Rightarrow> bool" where
  "is_space c = (let n = (of_char c :: nat) in (9 \<le> n \<and> n \<le> 13) \<or> (28 \<le> n \<and> n \<le> 32))"

text \<open>\<open>split_ws cur s\<close>: the words of \<open>s\<close>, where \<open>cur\<close> is the word being read (reversed).\<close>

fun split_ws :: "string \<Rightarrow> string \<Rightarrow> string list" where
  "split_ws cur [] = (if cur = [] then [] else [rev cur])"
| "split_ws cur (c # cs) =
     (if is_space c then (if cur = [] then split_ws [] cs else rev cur # split_ws [] cs)
      else split_ws (c # cur) cs)"

definition split :: "string \<Rightarrow> string list" where
  "split s = split_ws [] s"

fun starts_with :: "string \<Rightarrow> string \<Rightarrow> bool" where
  "starts_with [] s = True"
| "starts_with (p # ps) [] = False"
| "starts_with (p # ps) (c # cs) = (p = c \<and> starts_with ps cs)"

text \<open>\<open>str_in a b\<close> is Python's \<open>a in b\<close> on strings: \<open>a\<close> occurs in \<open>b\<close> as a
  contiguous substring.\<close>

fun str_in :: "string \<Rightarrow> string \<Rightarrow> bool" where
  "str_in a [] = (a = [])"
| "str_in a (c # cs) = (starts_with a (c # cs) \<or> str_in a cs)"

fun join :: "string \<Rightarrow> string list \<Rightarrow> string" where
  "join sep [] = []"
| "join sep [x] = x"
| "join sep (x # y # ys) = x @ sep @ join sep (y # ys)"

section \<open>Dictionaries\<close>

text \<open>
  A Python \<open>dict\<close> keeps insertion order and the code iterates over it, so a dictionary
  is an association list: assigning to an existing key replaces the value in place,
  assigning to a new key appends, \<open>del\<close> removes the entry.
\<close>

type_synonym ('k, 'v) dict = "('k \<times> 'v) list"

definition keys :: "('k, 'v) dict \<Rightarrow> 'k list" where
  "keys d = map fst d"

fun dict_set :: "'k \<Rightarrow> 'v \<Rightarrow> ('k, 'v) dict \<Rightarrow> ('k, 'v) dict" where
  "dict_set k v [] = [(k, v)]"
| "dict_set k v (p # ps) = (if fst p = k then (k, v) # ps else p # dict_set k v ps)"

definition dict_del :: "'k \<Rightarrow> ('k, 'v) dict \<Rightarrow> ('k, 'v) dict" where
  "dict_del k d = filter (\<lambda>p. fst p \<noteq> k) d"

definition dict_get :: "('k, 'v) dict \<Rightarrow> 'k \<Rightarrow> 'v \<Rightarrow> 'v" where
  "dict_get d k dflt = (case map_of d k of None \<Rightarrow> dflt | Some v \<Rightarrow> v)"

section \<open>Agent descriptors, registry and capability index\<close>

text \<open>
  The fields of \<open>AgentSkill\<close> and \<open>AgentCard\<close> that the orchestrator reads. A skill whose
  tags are \<open>None\<close> behaves as one with no tags (\<open>skill.tags or []\<close>).
\<close>

record skill =
  skill_name :: string
  skill_description :: string
  skill_tags :: "string list"

record agent_card =
  card_name :: string
  card_description :: string
  card_url :: string
  card_skills :: "skill list"

type_synonym registry = "(string, agent_card) dict"
type_synonym skill_index = "(string, string list) dict"

record orchestrator =
  agents :: registry
  skill_keywords :: skill_index

text \<open>Append \<open>w\<close> unless it is among the lower-cased keywords already there.\<close>

definition add_keyword :: "string \<Rightarrow> string list \<Rightarrow> string list" where
  "add_keyword w kws = (if w \<in> set (map lower kws) then kws else kws @ [w])"

definition skill_kws :: "skill \<Rightarrow> string list \<Rightarrow> string list" where
  "skill_kws sk kws0 =
     (let kws1 = foldl (\<lambda>kws tag. add_keyword (lower tag) kws) kws0 (skill_tags sk);
          kws2 = add_keyword (replace_chr (CHR ''_'') (CHR '' '') (lower (skill_name sk))) kws1;
          desc_words = take 3 (split (lower (skill_description sk)))
      in foldl (\<lambda>kws w. if length w > 2 then add_keyword w kws else kws) kws2 desc_words)"

definition index_skill :: "skill_index \<Rightarrow> skill \<Rightarrow> skill_index" where
  "index_skill idx sk =
     (let idx1 = (if skill_name sk \<in> set (keys idx) then idx else dict_set (skill_name sk) [] idx)
      in dict_set (skill_name sk) (skill_kws sk (dict_get idx1 (skill_name sk) [])) idx1)"

definition update_skill_keywords :: "registry \<Rightarrow> skill_index" where
  "update_skill_keywords ags =
     foldl (\<lambda>idx entry. foldl index_skill idx (card_skills (snd entry))) [] ags"

definition add_agent :: "string \<Rightarrow> agent_card \<Rightarrow> orchestrator \<Rightarrow> orchestrator" where
  "add_agent agent_id acard st =
     (let ags = dict_set agent_id acard (agents st)
      in \<lparr>agents = ags, skill_keywords = update_skill_keywords ags\<rparr>)"

section \<open>Scoring\<close>

text \<open>
  Scores and confidences are floats in the source and real numbers here. A score is a sum
  of terms 1.0 and 1.5, which floating point represents exactly; a confidence is the
  quotient of a score by 5.0.
\<close>

definition skill_matches_request :: "skill_index \<Rightarrow> string \<Rightarrow> string \<Rightarrow> bool" where
  "skill_matches_request idx sname request =
     list_ex (\<lambda>keyword. str_in keyword (lower request)) (dict_get idx sname [])"

definition calculate_agent_score ::
  "skill_index \<Rightarrow> string \<Rightarrow> agent_card \<Rightarrow> real \<times> string list" where
  "calculate_agent_score idx request acard =
     (let request_lower = lower request;
          keywords = concat (map skill_tags (card_skills acard));
          score1 = foldl (\<lambda>score keyword.
                      if str_in (lower keyword) request_lower then score + 1 else score)
                    0 keywords
      in foldl (\<lambda>(score, matched_skills) sk.
                  if skill_matches_request idx (skill_name sk) request
                  then (score + 3 / 2, matched_skills @ [skill_name sk])
                  else (score, matched_skills))
               (score1, []) (card_skills acard))"

section \<open>Registry operations\<close>

text \<open>
  \<open>register_agent\<close> fetches the descriptor over the network; \<open>resolver\<close> stands for that
  fetch and gives \<open>None\<close> when \<open>_fetch_agent_card_with_a2a\<close> does (it catches every
  exception of the fetch itself).
\<close>

datatype register_result =
    Registered string string string
  | RegisterFailed string

fun register_success :: "register_result \<Rightarrow> bool" where
  "register_success (Registered agent_id agent_name endpoint) = True"
| "register_success (RegisterFailed endpoint) = False"

definition register_agent ::
  "(string \<Rightarrow> agent_card option) \<Rightarrow> string \<Rightarrow> orchestrator \<Rightarrow> register_result \<times> orchestrator" where
  "register_agent resolver endpoint st =
     (case resolver endpoint of
        Some acard \<Rightarrow>
          (let agent_id = card_name acard;
               ags = dict_set agent_id acard (agents st)
           in (Registered agent_id (card_name acard) endpoint,
               \<lparr>agents = ags, skill_keywords = update_skill_keywords ags\<rparr>))
      | None \<Rightarrow> (RegisterFailed endpoint, st))"

text \<open>The search loop of \<open>unregister_agent\<close>: the first entry, in iteration order, that the
  identifier matches in one of the four ways.\<close>

fun find_agent :: "string \<Rightarrow> registry \<Rightarrow> (string \<times> agent_card) option" where
  "find_agent agent_identifier [] = None"
| "find_agent agent_identifier (entry # rest) =
     (if fst entry = agent_identifier then Some entry
      else if card_url (snd entry) = agent_identifier then Some entry
      else if lower (card_name (snd entry)) = lower agent_identifier then Some entry
      else if str_in agent_identifier (card_url (snd entry)) then Some entry
      else find_agent agent_identifier rest)"

datatype unregister_result =
    Unregistered string string string
  | AgentNotFound string "string list"

fun unregister_success :: "unregister_result \<Rightarrow> bool" where
  "unregister_success (Unregistered agent_id agent_name endpoint) = True"
| "unregister_success (AgentNotFound agent_identifier available) = False"

text \<open>The test \<open>if agent_to_remove and agent_id_to_remove\<close> is a truth test: an agent card
  is always true, a registry key is true unless it is the empty string.\<close>

definition unregister_agent ::
  "string \<Rightarrow> orchestrator \<Rightarrow> unregister_result \<times> orchestrator" where
  "unregister_agent agent_identifier st =
     (case find_agent agent_identifier (agents st) of
        Some (agent_id_to_remove, agent_to_remove) \<Rightarrow>
          (if agent_id_to_remove \<noteq> [] then
             (let ags = dict_del agent_id_to_remove (agents st)
              in (Unregistered agent_id_to_remove (card_name agent_to_remove)
                    (card_url agent_to_remove),
                  \<lparr>agents = ags, skill_keywords = update_skill_keywords ags\<rparr>))
           else (AgentNotFound agent_identifier (keys (agents st)), st))
      | None \<Rightarrow> (AgentNotFound agent_identifier (keys (agents st)), st))"

section \<open>JSON values and exceptions\<close>

text \<open>
  What \<open>response.json()\<close> can return. The entries of \<open>JObj\<close> are the items of the parsed
  \<open>dict\<close>; a look-up takes the first entry with the key.
\<close>

datatype json =
    JNull
  | JBool bool
  | JNum real
  | JStr string
  | JArr "json list"
  | JObj "(string \<times> json) list"

text \<open>
  Exceptions are values. \<open>Exception m\<close> is the \<open>Exception(...)\<close> the forwarder raises
  itself; its message is kept in structured form, one constructor of \<open>exc_message\<close>
  for each text the source builds.
\<close>

datatype py_exception =
    KeyError string
  | TypeError
  | AttributeError
  | HTTPStatusError nat string
  | RequestError string
  | Exception exc_message
and exc_message =
    AgentReturnedError json
  | NoResultInAgentResponse
  | HttpErrorMessage nat string
  | RequestForwardingFailed py_exception

definition bind :: "py_exception + 'a \<Rightarrow> ('a \<Rightarrow> py_exception + 'b) \<Rightarrow> py_exception + 'b" where
  "bind m f = (case m of Inl e \<Rightarrow> Inl e | Inr x \<Rightarrow> f x)"

section \<open>Analysis stage\<close>

text \<open>The selection loop of \<open>_analyze_request\<close>; the accumulator is
  \<open>(best_agent, best_score, agent_scores, skill_matches)\<close>.\<close>

type_synonym selection =
  "string option \<times> real \<times> (string, real) dict \<times> (string, string list) dict"

definition select_step :: "skill_index \<Rightarrow> string \<Rightarrow> selection \<Rightarrow> string \<times> agent_card \<Rightarrow> selection" where
  "select_step idx request acc entry =
     (case acc of (best_agent, best_score, agent_scores, skill_matches) \<Rightarrow>
        (case calculate_agent_score idx request (snd entry) of (score, matched_skills) \<Rightarrow>
           (let agent_scores' = dict_set (fst entry) score agent_scores;
                skill_matches' = dict_set (fst entry) matched_skills skill_matches
            in if score > best_score
               then (Some (fst entry), score, agent_scores', skill_matches')
               else (best_agent, best_score, agent_scores', skill_matches'))))"

definition select_agent :: "orchestrator \<Rightarrow> string \<Rightarrow> selection" where
  "select_agent st request =
     foldl (select_step (skill_keywords st) request) (None, 0, [], []) (agents st)"

definition generate_reasoning ::
  "orchestrator \<Rightarrow> string \<Rightarrow> string \<Rightarrow> (string, real) dict \<Rightarrow> (string, string list) dict
     \<Rightarrow> py_exception + string" where
  "generate_reasoning st request selected_agent agent_scores skill_matches =
     (case map_of (agents st) selected_agent of
        None \<Rightarrow> Inl (KeyError selected_agent)
      | Some acard \<Rightarrow>
          (let request_lower = lower request;
               keywords = concat (map skill_tags (card_skills acard));
               matched_keywords = filter (\<lambda>keyword. str_in (lower keyword) request_lower) keywords;
               matched_skills = dict_get skill_matches selected_agent [];
               parts0 = [''Selected '' @ card_name acard];
               parts1 = (if matched_keywords \<noteq> []
                         then parts0 @ [''based on keywords: '' @ join '', '' matched_keywords]
                         else parts0);
               parts2 = (if matched_skills \<noteq> []
                         then (if matched_keywords \<noteq> []
                               then parts1 @ [''and skills: '' @ join '', '' matched_skills]
                               else parts1 @ [''based on skills: '' @ join '', '' matched_skills])
                         else parts1);
               parts3 = (if matched_keywords = [] \<and> matched_skills = []
                         then parts2 @ [''using default ArgoCD agent'']
                         else parts2)
           in Inr (join '' '' parts3)))"

text \<open>
  The per-request state. Of the metadata the model keeps the score tables, the endpoint
  and the status; the request id and the time stamps are left out. The response text is
  kept in structured form: \<open>RoutedTo name actual_response\<close> for the text of a delivered
  request, \<open>RoutingDecision name endpoint confidence reasoning exc\<close> for the routing-only
  text that reports the decision and the forwarding error.
\<close>

record route_metadata =
  agent_scores :: "(string, real) dict"
  skill_matches :: "(string, string list) dict"
  agent_endpoint :: "string option"
  status :: "string option"

datatype response_text =
    NoResponse
  | RoutedTo string json
  | RoutingDecision string string real string py_exception

record router_state =
  request :: string
  selected_agent :: string
  confidence :: real
  reasoning :: string
  response :: response_text
  error :: string
  metadata :: route_metadata

definition analyze_request :: "orchestrator \<Rightarrow> router_state \<Rightarrow> py_exception + router_state" where
  "analyze_request st state =
     (case select_agent st (request state) of
        (best, score, scores, matches) \<Rightarrow>
          (let best_agent = (case best of None \<Rightarrow> ''argocd'' | Some a \<Rightarrow> a);
               best_score = (case best of None \<Rightarrow> 3 / 10 | Some a \<Rightarrow> score);
               conf = min (best_score / 5) 1
           in bind (generate_reasoning st (request state) best_agent scores matches)
                (\<lambda>text. Inr (state\<lparr>selected_agent := best_agent, confidence := conf,
                    reasoning := text,
                    metadata := \<lparr>agent_scores = scores, skill_matches = matches,
                                  agent_endpoint = None, status = None\<rparr>\<rparr>))))"

section \<open>Python operations on JSON values\<close>

text \<open>\<open>key in x\<close> for a string key: membership in a dict's keys or in a list, substring
  test on a string, \<open>TypeError\<close> on anything else.\<close>

fun py_in :: "string \<Rightarrow> json \<Rightarrow> py_exception + bool" where
  "py_in k (JObj items) = Inr (k \<in> set (keys items))"
| "py_in k (JArr xs) = Inr (JStr k \<in> set xs)"
| "py_in k (JStr s) = Inr (str_in k s)"
| "py_in k x = Inl TypeError"

text \<open>\<open>x[key]\<close> for a string key.\<close>

fun py_getitem :: "json \<Rightarrow> string \<Rightarrow> py_exception + json" where
  "py_getitem (JObj items) k = (case map_of items k of None \<Rightarrow> Inl (KeyError k) | Some v \<Rightarrow> Inr v)"
| "py_getitem x k = Inl TypeError"

text \<open>\<open>x.get(key, default)\<close>: only a dict has the method.\<close>

fun py_get :: "json \<Rightarrow> string \<Rightarrow> json \<Rightarrow> py_exception + json" where
  "py_get (JObj items) k dflt = Inr (dict_get items k dflt)"
| "py_get x k dflt = Inl AttributeError"

text \<open>The values a \<open>for\<close> loop over \<open>x\<close> runs through.\<close>

fun py_iter :: "json \<Rightarrow> py_exception + json list" where
  "py_iter (JArr xs) = Inr xs"
| "py_iter (JObj items) = Inr (map JStr (keys items))"
| "py_iter (JStr s) = Inr (map (\<lambda>c. JStr [c]) s)"
| "py_iter x = Inl TypeError"

fun truthy :: "json \<Rightarrow> bool" where
  "truthy JNull = False"
| "truthy (JBool b) = b"
| "truthy (JNum n) = (n \<noteq> 0)"
| "truthy (JStr s) = (s \<noteq> [])"
| "truthy (JArr xs) = (xs \<noteq> [])"
| "truthy (JObj items) = (items \<noteq> [])"

section \<open>Forwarding a request\<close>

text \<open>
  The network is a parameter. A reply to a POST is a 2xx response with a JSON body, a
  response on which \<open>raise_for_status\<close> raises (status code and body text), or a failure
  of the exchange itself (no connection, time-out, body that is not JSON). \<open>send_reply\<close>
  answers \<open>message/send\<close>; \<open>task_reply task_id attempt\<close> answers the \<open>tasks/get\<close> of
  the given attempt, counted from 0.
\<close>

datatype http_reply =
    HttpOk json
  | HttpStatus nat string
  | HttpFailure string

record remote =
  send_reply :: http_reply
  task_reply :: "json \<Rightarrow> nat \<Rightarrow> http_reply"

type_synonym network = "string \<Rightarrow> string \<Rightarrow> remote"

datatype io_event =
    PostSend
  | Sleep nat
  | PostGet json

text \<open>\<open>client.post\<close>, \<open>raise_for_status\<close> and \<open>.json()\<close> together.\<close>

fun http_body :: "http_reply \<Rightarrow> py_exception + json" where
  "http_body (HttpOk body) = Inr body"
| "http_body (HttpStatus code body_text) = Inl (HTTPStatusError code body_text)"
| "http_body (HttpFailure msg) = Inl (RequestError msg)"

text \<open>The loop \<open>for part in parts: if part.get(kind_key) == "text": return part.get("text", dflt)\<close>;
  \<open>None\<close> when the loop ends without returning.\<close>

fun first_text :: "string \<Rightarrow> json \<Rightarrow> json list \<Rightarrow> py_exception + json option" where
  "first_text kind_key dflt [] = Inr None"
| "first_text kind_key dflt (part # rest) =
     (case py_get part kind_key JNull of
        Inl e \<Rightarrow> Inl e
      | Inr kind \<Rightarrow>
          if kind = JStr ''text'' then bind (py_get part ''text'' dflt) (\<lambda>t. Inr (Some t))
          else first_text kind_key dflt rest)"

fun first_artifact_text :: "json list \<Rightarrow> py_exception + json option" where
  "first_artifact_text [] = Inr None"
| "first_artifact_text (artifact # rest) =
     (case bind (py_get artifact ''parts'' (JArr []))
             (\<lambda>parts. bind (py_iter parts) (first_text ''kind'' (JStr ''No text in response''))) of
        Inl e \<Rightarrow> Inl e
      | Inr (Some t) \<Rightarrow> Inr (Some t)
      | Inr None \<Rightarrow> first_artifact_text rest)"

text \<open>What one \<open>tasks/get\<close> body makes the loop do: \<open>Some v\<close> returns \<open>v\<close>, \<open>None\<close> goes on
  to the next attempt.\<close>

definition completed_text :: "json \<Rightarrow> py_exception + json" where
  "completed_text task_data =
     bind (py_get task_data ''artifacts'' (JArr [])) (\<lambda>artifacts.
       if truthy artifacts then
         bind (py_iter artifacts) (\<lambda>arts.
         bind (first_artifact_text arts) (\<lambda>found.
           case found of
             Some t \<Rightarrow> Inr t
           | None \<Rightarrow> Inr (JStr ''Task completed but no response text found'')))
       else Inr (JStr ''Task completed but no response text found''))"

definition input_required_text :: "json \<Rightarrow> py_exception + json" where
  "input_required_text task_data =
     bind (py_get task_data ''status'' (JObj [])) (\<lambda>status_obj.
     bind (py_get status_obj ''message'' (JObj [])) (\<lambda>status_message.
       if truthy status_message then
         bind (py_get status_message ''parts'' (JArr [])) (\<lambda>parts.
         bind (py_iter parts) (\<lambda>ps.
         bind (first_text ''kind'' (JStr ''No text in input-required response'') ps) (\<lambda>found.
           case found of
             Some t \<Rightarrow> Inr t
           | None \<Rightarrow> Inr (JStr ''Agent requires input but no message provided''))))
       else Inr (JStr ''Agent requires input but no message provided'')))"

definition task_outcome :: "json \<Rightarrow> py_exception + json option" where
  "task_outcome get_result =
     bind (py_in ''result'' get_result) (\<lambda>has_result.
       if \<not> has_result then Inr None
       else bind (py_getitem get_result ''result'') (\<lambda>task_data.
         if \<not> truthy task_data then Inr None
         else bind (py_get task_data ''status'' (JObj [])) (\<lambda>status_obj.
              bind (py_get status_obj ''state'' JNull) (\<lambda>task_state.
                if task_state = JStr ''completed'' then
                  bind (completed_text task_data) (\<lambda>t. Inr (Some t))
                else if task_state = JStr ''failed'' then
                  Inr (Some (JStr ''Agent task failed''))
                else if task_state = JStr ''input-required'' then
                  bind (input_required_text task_data) (\<lambda>t. Inr (Some t))
                else Inr None))))"

text \<open>The poll loop \<open>for attempt in range(30)\<close>, over the list of attempts still to make.
  Every attempt sleeps one second and then posts \<open>tasks/get\<close>.\<close>

fun poll_loop :: "(nat \<Rightarrow> http_reply) \<Rightarrow> json \<Rightarrow> nat list \<Rightarrow> (py_exception + json) \<times> io_event list" where
  "poll_loop replies task_id [] = (Inr (JStr ''Task did not complete within timeout''), [])"
| "poll_loop replies task_id (attempt # rest) =
     (case bind (http_body (replies attempt)) task_outcome of
        Inl e \<Rightarrow> (Inl e, [Sleep 1, PostGet task_id])
      | Inr (Some v) \<Rightarrow> (Inr v, [Sleep 1, PostGet task_id])
      | Inr None \<Rightarrow>
          (case poll_loop replies task_id rest of
             (res, events) \<Rightarrow> (res, Sleep 1 # PostGet task_id # events)))"

text \<open>What the body of \<open>message/send\<close> decides: poll the task with the given id, or return
  a value at once.\<close>

datatype send_outcome =
    PollTask json
  | Respond json

definition message_outcome :: "json \<Rightarrow> py_exception + send_outcome" where
  "message_outcome result =
     bind (py_in ''error'' result) (\<lambda>has_error.
       if has_error then
         bind (py_getitem result ''error'') (\<lambda>err. Inl (Exception (AgentReturnedError err)))
       else bind (py_in ''result'' result) (\<lambda>has_result.
         if \<not> has_result then Inl (Exception NoResultInAgentResponse)
         else bind (py_getitem result ''result'') (\<lambda>message_result.
           case message_result of
             JObj items \<Rightarrow>
               if ''id'' \<in> set (keys items) \<and> ''status'' \<in> set (keys items) then
                 bind (py_getitem message_result ''id'') (\<lambda>task_id. Inr (PollTask task_id))
               else if ''parts'' \<in> set (keys items) then
                 bind (py_get message_result ''parts'' (JArr [])) (\<lambda>parts.
                 bind (py_iter parts) (\<lambda>ps.
                 bind (first_text ''type'' (JStr ''No text in message'') ps) (\<lambda>found.
                   case found of
                     Some t \<Rightarrow> Inr (Respond t)
                   | None \<Rightarrow> Inr (Respond (JStr ''Message received but no text content'')))))
               else Inr (Respond (JStr ''Unexpected response format from agent''))
           | _ \<Rightarrow> Inr (Respond (JStr ''Unexpected response format from agent'')))))"

text \<open>The body of the \<open>try\<close> block.\<close>

definition forward_try :: "remote \<Rightarrow> (py_exception + json) \<times> io_event list" where
  "forward_try r =
     (case bind (http_body (send_reply r)) message_outcome of
        Inl e \<Rightarrow> (Inl e, [PostSend])
      | Inr (Respond v) \<Rightarrow> (Inr v, [PostSend])
      | Inr (PollTask task_id) \<Rightarrow>
          (case poll_loop (task_reply r task_id) task_id [0..<30] of
             (res, events) \<Rightarrow> (res, PostSend # events)))"

text \<open>The two \<open>except\<close> clauses: both raise an \<open>Exception\<close> with a new message.\<close>

fun forward_except :: "py_exception \<Rightarrow> py_exception" where
  "forward_except (HTTPStatusError code body_text) = Exception (HttpErrorMessage code body_text)"
| "forward_except e = Exception (RequestForwardingFailed e)"

definition forward_request_to_agent ::
  "network \<Rightarrow> string \<Rightarrow> string \<Rightarrow> (py_exception + json) \<times> io_event list" where
  "forward_request_to_agent net endpoint req =
     (case forward_try (net endpoint req) of
        (Inl e, events) \<Rightarrow> (Inl (forward_except e), events)
      | (Inr v, events) \<Rightarrow> (Inr v, events))"

section \<open>Route stage and the pipeline\<close>

text \<open>
  The compiled workflow has the two nodes \<open>analyze\<close> and \<open>route\<close> in sequence. An
  exception raised in either node leaves \<open>ainvoke\<close>, and \<open>process_request\<close> catches it.
\<close>

definition route_to_agent ::
  "network \<Rightarrow> orchestrator \<Rightarrow> router_state \<Rightarrow> py_exception + router_state" where
  "route_to_agent net st state =
     (case map_of (agents st) (selected_agent state) of
        None \<Rightarrow> Inl (KeyError (selected_agent state))
      | Some acard \<Rightarrow>
          (let endpoint = card_url acard;
               md = (metadata state)\<lparr>agent_endpoint := Some endpoint\<rparr>
           in case fst (forward_request_to_agent net endpoint (request state)) of
                Inr actual_response \<Rightarrow>
                  Inr (state\<lparr>response := RoutedTo (card_name acard) actual_response,
                             metadata := md\<lparr>status := Some ''completed''\<rparr>\<rparr>)
              | Inl e \<Rightarrow>
                  Inr (state\<lparr>response := RoutingDecision (card_name acard) endpoint
                                           (confidence state) (reasoning state) e,
                             metadata := md\<lparr>status := Some ''routing_only''\<rparr>\<rparr>)))"

text \<open>The result of \<open>process_request\<close>: the dict with \<open>success: True\<close> or the one with
  \<open>success: False\<close> and the exception whose text is the \<open>error\<close> entry.\<close>

datatype envelope =
    Success (env_request: string) (selected_agent_id: string) (selected_agent_name: string)
      (agent_skills: "string list") (env_confidence: real) (env_reasoning: string)
      (env_response: response_text) (env_metadata: route_metadata)
  | Failure (failed_request: string) (env_error: py_exception)

fun success :: "envelope \<Rightarrow> bool" where
  "success (Success r i n sk c t resp md) = True"
| "success (Failure r e) = False"

definition initial_state :: "string \<Rightarrow> router_state" where
  "initial_state req =
     \<lparr>request = req, selected_agent = [], confidence = 0, reasoning = [],
      response = NoResponse, error = [],
      metadata = \<lparr>agent_scores = [], skill_matches = [], agent_endpoint = None, status = None\<rparr>\<rparr>"

definition process_request :: "network \<Rightarrow> orchestrator \<Rightarrow> string \<Rightarrow> envelope" where
  "process_request net st req =
     (case bind (analyze_request st (initial_state req)) (route_to_agent net st) of
        Inl e \<Rightarrow> Failure req e
      | Inr final_state \<Rightarrow>
          (case map_of (agents st) (selected_agent final_state) of
             None \<Rightarrow> Failure req (KeyError (selected_agent final_state))
           | Some acard \<Rightarrow>
               Success req (selected_agent final_state) (card_name acard)
                 (map skill_name (card_skills acard)) (confidence final_state)
                 (reasoning final_state) (response final_state) (metadata final_state)))"

section \<open>Notions of the specification\<close>

text \<open>The skill names of the agents in a registry, and the statement that the capability
  index has exactly these as its keys.\<close>

definition registry_skill_names :: "registry \<Rightarrow> string set" where
  "registry_skill_names ags =
     set (concat (map (\<lambda>entry. map skill_name (card_skills (snd entry))) ags))"

definition index_exact :: "orchestrator \<Rightarrow> bool" where
  "index_exact st = (set (keys (skill_keywords st)) = registry_skill_names (agents st))"

text \<open>An identifier matches an entry in one of the four forms: registry key, exact
  endpoint URL, name up to case, substring of the endpoint URL.\<close>

definition matches :: "string \<Rightarrow> string \<times> agent_card \<Rightarrow> bool" where
  "matches agent_identifier entry =
     (fst entry = agent_identifier
      \<or> card_url (snd entry) = agent_identifier
      \<or> lower (card_name (snd entry)) = lower agent_identifier
      \<or> str_in agent_identifier (card_url (snd entry)))"

text \<open>The search as the specification words it: the whole registry is searched by key,
  then by exact URL, then by name, then by URL substring.\<close>

definition find_by_priority :: "string \<Rightarrow> registry \<Rightarrow> (string \<times> agent_card) option" where
  "find_by_priority agent_identifier ags =
     (case find (\<lambda>entry. fst entry = agent_identifier) ags of
        Some entry \<Rightarrow> Some entry
      | None \<Rightarrow>
     (case find (\<lambda>entry. card_url (snd entry) = agent_identifier) ags of
        Some entry \<Rightarrow> Some entry
      | None \<Rightarrow>
     (case find (\<lambda>entry. lower (card_name (snd entry)) = lower agent_identifier) ags of
        Some entry \<Rightarrow> Some entry
      | None \<Rightarrow> find (\<lambda>entry. str_in agent_identifier (card_url (snd entry))) ags)))"

text \<open>
  The state that a \<open>tasks/get\<close> reply reports, for a reply of the shape the protocol
  describes (\<open>result.status.state\<close> is a string); a task is still running when it reports
  a state that is none of \<open>completed\<close>, \<open>failed\<close> and \<open>input-required\<close>.
\<close>

fun reported_state :: "http_reply \<Rightarrow> string option" where
  "reported_state (HttpOk (JObj items)) =
     (case map_of items ''result'' of
        Some (JObj task) \<Rightarrow>
          (case map_of task ''status'' of
             Some (JObj status_items) \<Rightarrow>
               (case map_of status_items ''state'' of
                  Some (JStr s) \<Rightarrow> Some s
                | _ \<Rightarrow> None)
           | _ \<Rightarrow> None)
      | _ \<Rightarrow> None)"
| "reported_state r = None"

definition still_running :: "http_reply \<Rightarrow> bool" where
  "still_running r =
     (case reported_state r of
        Some s \<Rightarrow> s \<noteq> ''completed'' \<and> s \<noteq> ''failed'' \<and> s \<noteq> ''input-required''
      | None \<Rightarrow> False)"

text \<open>A \<open>result\<close> that is neither a task (an object with \<open>id\<close> and \<open>status\<close>) nor a
  message (an object with \<open>parts\<close>).\<close>

fun unrecognized_shape :: "json \<Rightarrow> bool" where
  "unrecognized_shape (JObj items) =
     (\<not> (''id'' \<in> set (keys items) \<and> ''status'' \<in> set (keys items))
      \<and> ''parts'' \<notin> set (keys items))"
| "unrecognized_shape x = True"

section \<open>Example inputs\<close>

definition no_agents :: orchestrator where
  "no_agents = \<lparr>agents = [], skill_keywords = []\<rparr>"

definition currency_skill :: skill where
  "currency_skill =
     \<lparr>skill_name = ''currency_exchange'',
      skill_description = ''Helps with exchange values between various currencies'',
      skill_tags = [''usd'', ''inr'']\<rparr>"

definition currency_agent :: agent_card where
  "currency_agent =
     \<lparr>card_name = ''Currency Agent'', card_description = ''Currency conversion'',
      card_url = ''http://localhost:8002'', card_skills = [currency_skill]\<rparr>"

definition currency_resolver :: "string \<Rightarrow> agent_card option" where
  "currency_resolver endpoint =
     (if endpoint = ''http://localhost:8002'' then Some currency_agent else None)"

definition alpha_agent :: agent_card where
  "alpha_agent =
     \<lparr>card_name = ''alpha'', card_description = [],
      card_url = ''http://beta.example:8001'', card_skills = []\<rparr>"

definition beta_agent :: agent_card where
  "beta_agent =
     \<lparr>card_name = ''beta'', card_description = [],
      card_url = ''http://localhost:8003'', card_skills = []\<rparr>"

definition alpha_beta :: orchestrator where
  "alpha_beta = add_agent ''beta'' beta_agent (add_agent ''alpha'' alpha_agent no_agents)"

definition upper_foo_agent :: agent_card where
  "upper_foo_agent =
     \<lparr>card_name = ''Foo'', card_description = [],
      card_url = ''http://localhost:9001'', card_skills = []\<rparr>"

definition lower_foo_agent :: agent_card where
  "lower_foo_agent =
     \<lparr>card_name = ''foo'', card_description = [],
      card_url = ''http://localhost:9002'', card_skills = []\<rparr>"

definition foo_resolver :: "string \<Rightarrow> agent_card option" where
  "foo_resolver endpoint =
     (if endpoint = ''http://localhost:9002'' then Some lower_foo_agent else None)"

definition nameless_agent :: agent_card where
  "nameless_agent =
     \<lparr>card_name = [], card_description = [],
      card_url = ''http://localhost:9003'', card_skills = []\<rparr>"

definition currency_card :: "string \<Rightarrow> string \<Rightarrow> string \<Rightarrow> string \<Rightarrow> agent_card" where
  "currency_card n cd u d =
     \<lparr>card_name = n, card_description = cd, card_url = u,
      card_skills = [\<lparr>skill_name = ''currency_exchange'', skill_description = d,
                      skill_tags = [''usd'', ''inr'']\<rparr>]\<rparr>"

definition currency_only :: orchestrator where
  "currency_only = add_agent ''Currency Agent'' currency_agent no_agents"

definition argocd_agent :: agent_card where
  "argocd_agent =
     \<lparr>card_name = ''ArgoCD Agent'', card_description = ''Manages deployments'',
      card_url = ''http://localhost:8001'',
      card_skills = [\<lparr>skill_name = ''sync_operations'',
                       skill_description = ''Sync applications'',
                       skill_tags = [''kubernetes'', ''sync'']\<rparr>]\<rparr>"

definition argocd_keyed :: orchestrator where
  "argocd_keyed = add_agent ''argocd'' argocd_agent no_agents"

text \<open>A network whose every endpoint answers \<open>message/send\<close> with the given reply.\<close>

definition reply_network :: "http_reply \<Rightarrow> network" where
  "reply_network reply =
     (\<lambda>endpoint req. \<lparr>send_reply = reply, task_reply = (\<lambda>task_id attempt. HttpFailure [])\<rparr>)"

text \<open>A network whose every endpoint creates task \<open>task-1\<close> and answers the poll of each
  attempt with the state that \<open>states\<close> gives.\<close>

definition task_body :: "string \<Rightarrow> json" where
  "task_body s =
     JObj [(''result'', JObj [(''id'', JStr ''task-1''), (''status'', JObj [(''state'', JStr s)])])]"

definition task_network :: "(nat \<Rightarrow> string) \<Rightarrow> network" where
  "task_network states =
     (\<lambda>endpoint req. \<lparr>send_reply = HttpOk (task_body ''submitted''),
                       task_reply = (\<lambda>task_id attempt. HttpOk (task_body (states attempt)))\<rparr>)"

definition text_message :: "string \<Rightarrow> json" where
  "text_message t =
     JObj [(''result'', JObj [(''parts'', JArr [JObj [(''type'', JStr ''text''), (''text'', JStr t)]])])]"

text \<open>The state after the analysis of the currency request over \<open>currency_only\<close>.\<close>

definition currency_decision :: router_state where
  "currency_decision =
     (initial_state ''how much is 10 USD in INR?'')
       \<lparr>selected_agent := ''Currency Agent'', confidence := 7 / 10,
        reasoning := ''Selected Currency Agent based on keywords: usd, inr and skills: currency_exchange'',
        metadata := \<lparr>agent_scores = [(''Currency Agent'', 7 / 2)],
                      skill_matches = [(''Currency Agent'', [''currency_exchange''])],
                      agent_endpoint = None, status = None\<rparr>\<rparr>"

text \<open>A task that reports \<open>working\<close> for the first \<open>k\<close> polls and \<open>failed\<close> from then on.\<close>

definition failing_after :: "nat \<Rightarrow> nat \<Rightarrow> string" where
  "failing_after k attempt = (if attempt < k then ''working'' else ''failed'')"

text \<open>A network whose every endpoint creates task \<open>task-1\<close> and answers the poll of each
  attempt with the reply that \<open>replies\<close> gives.\<close>

definition poll_network :: "(nat \<Rightarrow> http_reply) \<Rightarrow> network" where
  "poll_network replies =
     (\<lambda>endpoint req. \<lparr>send_reply = HttpOk (task_body ''submitted''),
                       task_reply = (\<lambda>task_id attempt. replies attempt)\<rparr>)"

text \<open>Polls that report \<open>working\<close> for the first \<open>k\<close> attempts and get the given reply from
  then on.\<close>

definition working_then :: "nat \<Rightarrow> http_reply \<Rightarrow> nat \<Rightarrow> http_reply" where
  "working_then k reply attempt = (if attempt < k then HttpOk (task_body ''working'') else reply)"

section \<open>Dictionaries: basic facts\<close>

lemma keys_dict_set: "set (keys (dict_set k v d)) = insert k (set (keys d))"
  by (induction d) (auto simp: keys_def)

lemma dict_set_new: "k \<notin> set (keys d) \<Longrightarrow> dict_set k v d = d @ [(k, v)]"
  by (induction d) (auto simp: keys_def)

lemma dict_del_appended: "k \<notin> set (keys d) \<Longrightarrow> dict_del k (d @ [(k, v)]) = d"
  by (induction d) (auto simp: keys_def dict_del_def)

section \<open>The capability index follows the registry\<close>

lemma keys_index_skill:
  "set (keys (index_skill idx sk)) = insert (skill_name sk) (set (keys idx))"
  by (auto simp: index_skill_def Let_def keys_dict_set)

lemma keys_foldl_index_skill:
  "set (keys (foldl index_skill idx sks)) = set (keys idx) \<union> skill_name ` set sks"
  by (induction sks arbitrary: idx) (auto simp: keys_index_skill)

lemma keys_foldl_agents:
  "set (keys (foldl (\<lambda>idx entry. foldl index_skill idx (card_skills (snd entry))) idx ags))
     = set (keys idx) \<union> registry_skill_names ags"
  by (induction ags arbitrary: idx) (auto simp: keys_foldl_index_skill registry_skill_names_def)

lemma keys_update_skill_keywords:
  "set (keys (update_skill_keywords ags)) = registry_skill_names ags"
  using keys_foldl_agents[of "[]" ags] by (simp add: update_skill_keywords_def keys_def)

text \<open>
  Claim C6. After \<open>add_agent\<close>, after a \<open>register_agent\<close> that succeeds and after an
  \<open>unregister_agent\<close> that succeeds, the keys of the capability index are exactly the
  skill names of the agents in the registry.
\<close>

theorem index_keys_after_mutation:
  "index_exact (add_agent agent_id acard st)
   \<and> (register_success (fst (register_agent resolver endpoint st))
        \<longrightarrow> index_exact (snd (register_agent resolver endpoint st)))
   \<and> (unregister_success (fst (unregister_agent agent_identifier st))
        \<longrightarrow> index_exact (snd (unregister_agent agent_identifier st)))"
  by (auto simp: index_exact_def add_agent_def register_agent_def unregister_agent_def Let_def
      keys_update_skill_keywords split: option.splits prod.splits if_splits)

theorem index_keys_after_mutation_witness:
  "register_success (fst (register_agent currency_resolver ''http://localhost:8002'' no_agents))
   \<and> index_exact (snd (register_agent currency_resolver ''http://localhost:8002'' no_agents))
   \<and> unregister_success (fst (unregister_agent ''beta'' alpha_beta))
   \<and> index_exact (snd (unregister_agent ''beta'' alpha_beta))"
proof -
  have reg: "register_success (fst (register_agent currency_resolver ''http://localhost:8002'' no_agents))"
    by code_simp
  have unreg: "unregister_success (fst (unregister_agent ''beta'' alpha_beta))"
    by code_simp
  from reg unreg
    index_keys_after_mutation[of _ _ no_agents currency_resolver "''http://localhost:8002''"
      "''beta''"]
    index_keys_after_mutation[of _ _ alpha_beta _ _ "''beta''"]
  show ?thesis by blast
qed

section \<open>Unregistering\<close>

lemma find_agent_none: "(\<forall>e \<in> set ags. \<not> matches i e) \<Longrightarrow> find_agent i ags = None"
  by (induction ags) (auto simp: matches_def)

lemma find_agent_first:
  "(\<forall>e \<in> set pre. \<not> matches i e) \<Longrightarrow> matches i e \<Longrightarrow> find_agent i (pre @ e # post) = Some e"
  by (induction pre) (auto simp: matches_def)

text \<open>
  Claim C3, as the code has it. The loop takes the first entry, in the order of the
  registry, that the identifier matches in any of the four forms, and removes it when
  its key is not the empty string; when no entry matches in any form the call fails
  with the not-found result and leaves the state as it was.
\<close>

theorem unregister_first_match:
  "((\<forall>e \<in> set (agents st). \<not> matches agent_identifier e) \<longrightarrow>
       unregister_agent agent_identifier st
         = (AgentNotFound agent_identifier (keys (agents st)), st))
   \<and> (agents st = pre @ (agent_id, acard) # post
        \<and> (\<forall>e \<in> set pre. \<not> matches agent_identifier e)
        \<and> matches agent_identifier (agent_id, acard) \<and> agent_id \<noteq> [] \<longrightarrow>
       unregister_agent agent_identifier st
         = (Unregistered agent_id (card_name acard) (card_url acard),
            \<lparr>agents = dict_del agent_id (agents st),
             skill_keywords = update_skill_keywords (dict_del agent_id (agents st))\<rparr>))"
  by (auto simp: unregister_agent_def find_agent_none find_agent_first Let_def)

theorem unregister_first_match_witness:
  "list_all (\<lambda>e. \<not> matches ''gamma'' e) (agents alpha_beta)
   \<and> unregister_agent ''gamma'' alpha_beta
        = (AgentNotFound ''gamma'' (keys (agents alpha_beta)), alpha_beta)
   \<and> agents alpha_beta = [] @ (''alpha'', alpha_agent) # [(''beta'', beta_agent)]
   \<and> matches ''beta'' (''alpha'', alpha_agent) \<and> ''alpha'' \<noteq> []
   \<and> unregister_agent ''beta'' alpha_beta
        = (Unregistered ''alpha'' (card_name alpha_agent) (card_url alpha_agent),
           \<lparr>agents = dict_del ''alpha'' (agents alpha_beta),
            skill_keywords = update_skill_keywords (dict_del ''alpha'' (agents alpha_beta))\<rparr>)"
proof -
  have none: "\<forall>e \<in> set (agents alpha_beta). \<not> matches ''gamma'' e"
    by code_simp
  have shape: "agents alpha_beta = [] @ (''alpha'', alpha_agent) # [(''beta'', beta_agent)]"
    by code_simp
  have hit: "matches ''beta'' (''alpha'', alpha_agent)"
    by code_simp
  from none shape hit
    unregister_first_match[of alpha_beta "''gamma''"]
    unregister_first_match[of alpha_beta "''beta''" "[]" "''alpha''" alpha_agent
      "[(''beta'', beta_agent)]"]
  show ?thesis by (simp add: list_all_iff)
qed

text \<open>
  The registry holds \<open>alpha\<close> (whose URL contains the text \<open>beta\<close>) and then \<open>beta\<close>.
  A search by key over the whole registry finds the entry with key \<open>beta\<close>; the code
  removes \<open>alpha\<close>, which it meets first and matches by URL substring, and \<open>beta\<close> stays.
\<close>

theorem unregister_priority_counterexample:
  "find_by_priority ''beta'' (agents alpha_beta) = Some (''beta'', beta_agent)
   \<and> find_agent ''beta'' (agents alpha_beta) \<noteq> find_by_priority ''beta'' (agents alpha_beta)
   \<and> unregister_agent ''beta'' alpha_beta
        = (Unregistered ''alpha'' ''alpha'' ''http://beta.example:8001'',
           \<lparr>agents = [(''beta'', beta_agent)], skill_keywords = []\<rparr>)"
  by code_simp

section \<open>Registering and unregistering again\<close>

text \<open>
  Claim C7, as the code has it. Let the registry not hold the key of agent A, let that key
  be a non-empty string and let the index be the one built from the registry. If an
  identifier matches A in one of the four forms and matches no agent already registered
  in any of the four forms, then adding A (with \<open>add_agent\<close>, or with \<open>register_agent\<close>
  under the key \<open>A.name\<close>) and unregistering by that identifier gives back the state
  before: the same registry and the same index.
\<close>

theorem register_unregister_round_trip:
  assumes "agent_id \<notin> set (keys (agents st))"
    and "agent_id \<noteq> []"
    and "skill_keywords st = update_skill_keywords (agents st)"
    and "matches agent_identifier (agent_id, acard)"
    and "\<forall>e \<in> set (agents st). \<not> matches agent_identifier e"
  shows "unregister_agent agent_identifier (add_agent agent_id acard st)
           = (Unregistered agent_id (card_name acard) (card_url acard), st)
         \<and> (resolver endpoint = Some acard \<and> card_name acard = agent_id \<longrightarrow>
              unregister_agent agent_identifier (snd (register_agent resolver endpoint st))
                = (Unregistered agent_id (card_name acard) (card_url acard), st))"
proof -
  have ags: "agents (add_agent agent_id acard st) = agents st @ [(agent_id, acard)]"
    using assms(1) by (simp add: add_agent_def Let_def dict_set_new)
  have found:
    "find_agent agent_identifier (agents st @ (agent_id, acard) # []) = Some (agent_id, acard)"
    using assms(4,5) by (simp add: find_agent_first)
  have del: "dict_del agent_id (agents st @ [(agent_id, acard)]) = agents st"
    using assms(1) by (rule dict_del_appended)
  have same: "\<lparr>agents = agents st, skill_keywords = update_skill_keywords (agents st)\<rparr> = st"
    using assms(3) by (cases st) simp
  have added: "unregister_agent agent_identifier (add_agent agent_id acard st)
           = (Unregistered agent_id (card_name acard) (card_url acard), st)"
    using assms(2) by (simp add: unregister_agent_def ags found del same Let_def)
  have "snd (register_agent resolver endpoint st) = add_agent agent_id acard st"
    if "resolver endpoint = Some acard" "card_name acard = agent_id"
    using that by (simp add: register_agent_def add_agent_def Let_def)
  with added show ?thesis by simp
qed

theorem register_unregister_round_trip_witness:
  "''Currency Agent'' \<notin> set (keys (agents alpha_beta))
   \<and> ''Currency Agent'' \<noteq> []
   \<and> skill_keywords alpha_beta = update_skill_keywords (agents alpha_beta)
   \<and> matches ''localhost:8002'' (''Currency Agent'', currency_agent)
   \<and> list_all (\<lambda>e. \<not> matches ''localhost:8002'' e) (agents alpha_beta)
   \<and> currency_resolver ''http://localhost:8002'' = Some currency_agent
   \<and> card_name currency_agent = ''Currency Agent''
   \<and> unregister_agent ''localhost:8002''
        (snd (register_agent currency_resolver ''http://localhost:8002'' alpha_beta))
      = (Unregistered ''Currency Agent'' (card_name currency_agent) (card_url currency_agent),
         alpha_beta)"
proof -
  have h1: "''Currency Agent'' \<notin> set (keys (agents alpha_beta))" by code_simp
  have h2: "''Currency Agent'' \<noteq> []" by simp
  have h3: "skill_keywords alpha_beta = update_skill_keywords (agents alpha_beta)" by code_simp
  have h4: "matches ''localhost:8002'' (''Currency Agent'', currency_agent)" by code_simp
  have h5: "\<forall>e \<in> set (agents alpha_beta). \<not> matches ''localhost:8002'' e" by code_simp
  have h6: "currency_resolver ''http://localhost:8002'' = Some currency_agent" by code_simp
  have h7: "card_name currency_agent = ''Currency Agent''" by code_simp
  from h1 h2 h3 h4 h5 h6 h7
    register_unregister_round_trip[OF h1 h2 h3 h4 h5, of currency_resolver
      "''http://localhost:8002''"]
  show ?thesis by (simp add: list_all_iff)
qed

text \<open>
  Two inputs on which the round trip does not give back the state before. The registry
  holds \<open>Foo\<close>; agent \<open>foo\<close> is registered and then unregistered by its registry id
  \<open>foo\<close>: the loop meets \<open>Foo\<close> first, matches it by name up to case and removes it, so
  \<open>foo\<close> stays. And an agent registered under the empty name is found by the loop but
  fails the truth test on the key, so nothing is removed.
\<close>

theorem round_trip_counterexample:
  "''foo'' \<notin> set (keys (agents (add_agent ''Foo'' upper_foo_agent no_agents)))
   \<and> snd (unregister_agent ''foo''
        (snd (register_agent foo_resolver ''http://localhost:9002''
               (add_agent ''Foo'' upper_foo_agent no_agents))))
      \<noteq> add_agent ''Foo'' upper_foo_agent no_agents
   \<and> snd (unregister_agent ''foo''
        (snd (register_agent foo_resolver ''http://localhost:9002''
               (add_agent ''Foo'' upper_foo_agent no_agents))))
      = \<lparr>agents = [(''foo'', lower_foo_agent)], skill_keywords = []\<rparr>
   \<and> snd (unregister_agent [] (add_agent [] nameless_agent no_agents)) \<noteq> no_agents
   \<and> snd (unregister_agent [] (add_agent [] nameless_agent no_agents))
      = \<lparr>agents = [([], nameless_agent)], skill_keywords = []\<rparr>"
  by code_simp

section \<open>The pipeline\<close>

lemma analyze_request_keeps_request:
  "analyze_request st state = Inr s \<Longrightarrow> request s = request state"
  by (auto simp: analyze_request_def bind_def Let_def split: prod.splits sum.splits)

text \<open>When the analysis selects a registered agent, the pipeline returns the success
  envelope; the forwarder decides only the response text and the status.\<close>

lemma process_request_routed:
  assumes "analyze_request st (initial_state req) = Inr s"
    and "map_of (agents st) (selected_agent s) = Some acard"
  shows "process_request net st req =
     Success req (selected_agent s) (card_name acard) (map skill_name (card_skills acard))
       (confidence s) (reasoning s)
       (case fst (forward_request_to_agent net (card_url acard) req) of
          Inr actual_response \<Rightarrow> RoutedTo (card_name acard) actual_response
        | Inl e \<Rightarrow>
            RoutingDecision (card_name acard) (card_url acard) (confidence s) (reasoning s) e)
       ((metadata s)\<lparr>agent_endpoint := Some (card_url acard),
          status := Some (case fst (forward_request_to_agent net (card_url acard) req) of
                            Inr actual_response \<Rightarrow> ''completed''
                          | Inl e \<Rightarrow> ''routing_only'')\<rparr>)"
proof -
  have req: "request s = req"
    using analyze_request_keeps_request[OF assms(1)] by (simp add: initial_state_def)
  show ?thesis
    using assms(2)
    by (cases "fst (forward_request_to_agent net (card_url acard) req)")
       (simp_all add: process_request_def assms(1) bind_def route_to_agent_def Let_def req)
qed

section \<open>The currency example\<close>

lemma desc_fold_prefix:
  "\<exists>ys. foldl (\<lambda>kws w. if length w > 2 then add_keyword w kws else kws) kws ws = kws @ ys"
proof (induction ws arbitrary: kws)
  case Nil
  then show ?case by simp
next
  case (Cons w ws)
  obtain ys where
    "foldl (\<lambda>kws w. if length w > 2 then add_keyword w kws else kws)
       (if length w > 2 then add_keyword w kws else kws) ws
     = (if length w > 2 then add_keyword w kws else kws) @ ys"
    using Cons.IH by blast
  then show ?case by (auto simp: add_keyword_def)
qed

lemma currency_name_kw:
  "add_keyword (replace_chr (CHR ''_'') (CHR '' '') (lower ''currency_exchange''))
     (add_keyword (lower ''inr'') (add_keyword (lower ''usd'') []))
   = [''usd'', ''inr'', ''currency exchange'']"
  by code_simp

lemma currency_kws:
  "\<exists>ys. skill_kws \<lparr>skill_name = ''currency_exchange'', skill_description = d,
                    skill_tags = [''usd'', ''inr'']\<rparr> [] = ''usd'' # ys"
  using desc_fold_prefix[of "[''usd'', ''inr'', ''currency exchange'']" "take 3 (split (lower d))"]
  by (auto simp: skill_kws_def Let_def currency_name_kw)

lemma currency_index:
  "\<exists>ys. skill_keywords (add_agent agent_id (currency_card n cd u d) no_agents)
         = [(''currency_exchange'', ''usd'' # ys)]"
  using currency_kws[of d]
  by (auto simp: add_agent_def no_agents_def Let_def update_skill_keywords_def index_skill_def
      keys_def dict_get_def currency_card_def)

lemma lower_request: "lower ''how much is 10 USD in INR?'' = ''how much is 10 usd in inr?''"
  by code_simp

lemma usd_in_request: "str_in ''usd'' ''how much is 10 usd in inr?''"
  by code_simp

lemma inr_in_request: "str_in ''inr'' ''how much is 10 usd in inr?''"
  by code_simp

lemma lower_usd: "lower ''usd'' = ''usd''"
  by code_simp

lemma lower_inr: "lower ''inr'' = ''inr''"
  by code_simp

text \<open>
  Claim C1. The registry holds one agent (any key, name, URL and descriptions) whose one
  skill is \<open>currency_exchange\<close> with tags \<open>usd\<close> and \<open>inr\<close>. The request
  \<open>how much is 10 USD in INR?\<close> scores it 3.5, the agent is selected, and the confidence is
  \<open>min (3.5 / 5) 1 = 0.7\<close>, over any network.
\<close>

theorem currency_example:
  "calculate_agent_score
     (skill_keywords (add_agent agent_id (currency_card n cd u d) no_agents))
     ''how much is 10 USD in INR?'' (currency_card n cd u d) = (7 / 2, [''currency_exchange''])
   \<and> select_agent (add_agent agent_id (currency_card n cd u d) no_agents)
        ''how much is 10 USD in INR?''
      = (Some agent_id, 7 / 2, [(agent_id, 7 / 2)], [(agent_id, [''currency_exchange''])])
   \<and> success (process_request net (add_agent agent_id (currency_card n cd u d) no_agents)
        ''how much is 10 USD in INR?'')
   \<and> selected_agent_id (process_request net (add_agent agent_id (currency_card n cd u d) no_agents)
        ''how much is 10 USD in INR?'') = agent_id
   \<and> selected_agent_name (process_request net (add_agent agent_id (currency_card n cd u d) no_agents)
        ''how much is 10 USD in INR?'') = n
   \<and> env_confidence (process_request net (add_agent agent_id (currency_card n cd u d) no_agents)
        ''how much is 10 USD in INR?'') = min (7 / 2 / 5) 1
   \<and> env_confidence (process_request net (add_agent agent_id (currency_card n cd u d) no_agents)
        ''how much is 10 USD in INR?'') = 7 / 10"
proof -
  define acard where "acard = currency_card n cd u d"
  define st where "st = add_agent agent_id acard no_agents"
  define req where "req = ''how much is 10 USD in INR?''"
  obtain ys where idx: "skill_keywords st = [(''currency_exchange'', ''usd'' # ys)]"
    unfolding st_def acard_def using currency_index by blast
  have ags: "agents st = [(agent_id, acard)]"
    by (simp add: st_def add_agent_def no_agents_def Let_def)
  have score: "calculate_agent_score (skill_keywords st) req acard
                 = (7 / 2, [''currency_exchange''])"
    by (simp add: idx calculate_agent_score_def acard_def currency_card_def req_def Let_def
        lower_request lower_usd lower_inr usd_in_request inr_in_request
        skill_matches_request_def dict_get_def)
  have sel: "select_agent st req
               = (Some agent_id, 7 / 2, [(agent_id, 7 / 2)], [(agent_id, [''currency_exchange''])])"
    by (simp add: select_agent_def ags select_step_def score Let_def)
  obtain r where reason:
    "generate_reasoning st req agent_id [(agent_id, 7 / 2)] [(agent_id, [''currency_exchange''])]
       = Inr r"
    by (simp add: generate_reasoning_def ags Let_def)
  have an: "analyze_request st (initial_state req)
              = Inr ((initial_state req)\<lparr>selected_agent := agent_id, confidence := 7 / 10,
                  reasoning := r,
                  metadata := \<lparr>agent_scores = [(agent_id, 7 / 2)],
                                skill_matches = [(agent_id, [''currency_exchange''])],
                                agent_endpoint = None, status = None\<rparr>\<rparr>)"
    by (simp add: analyze_request_def initial_state_def sel reason bind_def)
  have proc: "success (process_request net st req)
      \<and> selected_agent_id (process_request net st req) = agent_id
      \<and> selected_agent_name (process_request net st req) = n
      \<and> env_confidence (process_request net st req) = 7 / 10"
    using process_request_routed[OF an, of acard net]
    by (simp add: ags acard_def currency_card_def)
  from score sel proc show ?thesis
    by (simp add: st_def acard_def req_def)
qed

section \<open>Scores and the default agent\<close>

lemma keyword_fold:
  "foldl (\<lambda>score keyword. if P keyword then score + 1 else score) a kws
     = a + real (length (filter P kws))"
  by (induction kws arbitrary: a) auto

lemma skill_fold:
  "foldl (\<lambda>(score, matched_skills) sk.
            if Q sk then (score + 3 / 2, matched_skills @ [skill_name sk])
            else (score, matched_skills)) (a, ms) sks
     = (a + 3 / 2 * real (length (filter Q sks)), ms @ map skill_name (filter Q sks))"
  by (induction sks arbitrary: a ms) (auto simp: algebra_simps)

lemma calculate_agent_score_eq:
  "calculate_agent_score idx req acard =
     (real (length (filter (\<lambda>keyword. str_in (lower keyword) (lower req))
                      (concat (map skill_tags (card_skills acard)))))
        + 3 / 2 * real (length (filter (\<lambda>sk. skill_matches_request idx (skill_name sk) req)
                                  (card_skills acard))),
      map skill_name (filter (\<lambda>sk. skill_matches_request idx (skill_name sk) req)
                        (card_skills acard)))"
  by (simp add: calculate_agent_score_def Let_def keyword_fold skill_fold)

lemma no_score_no_match:
  assumes "fst (calculate_agent_score idx req acard) \<le> 0"
  shows "snd (calculate_agent_score idx req acard) = []
     \<and> filter (\<lambda>keyword. str_in (lower keyword) (lower req))
          (concat (map skill_tags (card_skills acard))) = []"
proof -
  let ?k = "length (filter (\<lambda>keyword. str_in (lower keyword) (lower req))
                      (concat (map skill_tags (card_skills acard))))"
  let ?m = "length (filter (\<lambda>sk. skill_matches_request idx (skill_name sk) req)
                                  (card_skills acard))"
  have "real ?k + 3 / 2 * real ?m \<le> 0"
    using assms by (simp add: calculate_agent_score_eq)
  then have "?k = 0 \<and> ?m = 0" by linarith
  then show ?thesis by (simp add: calculate_agent_score_eq)
qed

lemma map_of_dict_set: "map_of (dict_set k v d) = (map_of d)(k \<mapsto> v)"
  by (induction d) (auto simp: fun_eq_iff)

lemma dict_get_dict_set:
  "dict_get (dict_set k v d) k' dflt = (if k' = k then v else dict_get d k' dflt)"
  by (simp add: dict_get_def map_of_dict_set)

lemma select_none:
  assumes "\<forall>e \<in> set ags. fst (calculate_agent_score idx req (snd e)) \<le> 0"
    and "\<forall>k. dict_get ms k [] = []"
  shows "\<exists>scores' ms'. foldl (select_step idx req) (None, 0, scores, ms) ags = (None, 0, scores', ms')
           \<and> (\<forall>k. dict_get ms' k [] = [])"
  using assms
proof (induction ags arbitrary: scores ms)
  case Nil
  then show ?case by simp
next
  case (Cons e ags)
  obtain sc m where sm: "calculate_agent_score idx req (snd e) = (sc, m)"
    by (cases "calculate_agent_score idx req (snd e)")
  have "sc \<le> 0" using Cons.prems(1) sm by simp
  moreover have "m = []" using no_score_no_match[of idx req "snd e"] Cons.prems(1) sm by simp
  ultimately have step: "select_step idx req (None, 0, scores, ms) e
     = (None, 0, dict_set (fst e) sc scores, dict_set (fst e) [] ms)"
    by (simp add: select_step_def sm Let_def)
  have "\<forall>k. dict_get (dict_set (fst e) [] ms) k [] = []"
    using Cons.prems(2) by (simp add: dict_get_dict_set)
  with Cons.IH[of "dict_set (fst e) [] ms" "dict_set (fst e) sc scores"] Cons.prems(1) step
  show ?case by simp
qed

lemma analyze_fallback:
  assumes "\<forall>e \<in> set (agents st). fst (calculate_agent_score (skill_keywords st) req (snd e)) \<le> 0"
  shows "\<exists>scores ms. select_agent st req = (None, 0, scores, ms) \<and> (\<forall>k. dict_get ms k [] = [])"
  unfolding select_agent_def
  using select_none[OF assms, of "[]" "[]"] by (simp add: dict_get_def)

text \<open>
  Claim C2, as the code has it. When no registered agent scores above 0 and the registry
  has an entry under the key \<open>argocd\<close>, the pipeline selects \<open>argocd\<close> with the fixed
  score 0.3, so the confidence is \<open>min (0.3 / 5) 1 = 0.06\<close>, and the reasoning says that
  the default agent is used.
\<close>

theorem fallback_selects_default:
  assumes "\<forall>e \<in> set (agents st). fst (calculate_agent_score (skill_keywords st) req (snd e)) \<le> 0"
    and "map_of (agents st) ''argocd'' = Some acard"
  shows "success (process_request net st req)
     \<and> selected_agent_id (process_request net st req) = ''argocd''
     \<and> selected_agent_name (process_request net st req) = card_name acard
     \<and> env_confidence (process_request net st req) = min ((3 / 10) / 5) 1
     \<and> env_confidence (process_request net st req) = 3 / 50
     \<and> env_reasoning (process_request net st req)
         = ''Selected '' @ card_name acard @ '' using default ArgoCD agent''"
proof -
  obtain scores ms where sel: "select_agent st req = (None, 0, scores, ms)"
    and ms: "\<forall>k. dict_get ms k [] = []"
    using analyze_fallback[OF assms(1)] by blast
  have "(''argocd'', acard) \<in> set (agents st)"
    using assms(2) by (rule map_of_SomeD)
  then have "fst (calculate_agent_score (skill_keywords st) req acard) \<le> 0"
    using assms(1) by force
  then have nokw: "filter (\<lambda>keyword. str_in (lower keyword) (lower req))
          (concat (map skill_tags (card_skills acard))) = []"
    using no_score_no_match by blast
  have reason: "generate_reasoning st req ''argocd'' scores ms
      = Inr (''Selected '' @ card_name acard @ '' using default ArgoCD agent'')"
    using ms by (simp add: generate_reasoning_def assms(2) Let_def nokw)
  have an: "analyze_request st (initial_state req)
     = Inr ((initial_state req)\<lparr>selected_agent := ''argocd'', confidence := 3 / 50,
          reasoning := ''Selected '' @ card_name acard @ '' using default ArgoCD agent'',
          metadata := \<lparr>agent_scores = scores, skill_matches = ms,
                        agent_endpoint = None, status = None\<rparr>\<rparr>)"
    by (simp add: analyze_request_def initial_state_def sel reason bind_def)
  show ?thesis
    using process_request_routed[OF an, of acard net] assms(2) by simp
qed

theorem fallback_selects_default_witness:
  "list_all (\<lambda>e. fst (calculate_agent_score (skill_keywords argocd_keyed) ''hello'' (snd e)) \<le> 0)
     (agents argocd_keyed)
   \<and> map_of (agents argocd_keyed) ''argocd'' = Some argocd_agent
   \<and> success (process_request (reply_network (HttpFailure [])) argocd_keyed ''hello'')
   \<and> selected_agent_id (process_request (reply_network (HttpFailure [])) argocd_keyed ''hello'')
       = ''argocd''
   \<and> env_confidence (process_request (reply_network (HttpFailure [])) argocd_keyed ''hello'')
       = 3 / 50
   \<and> env_reasoning (process_request (reply_network (HttpFailure [])) argocd_keyed ''hello'')
       = ''Selected '' @ card_name argocd_agent @ '' using default ArgoCD agent''"
proof -
  have h1: "\<forall>e \<in> set (agents argocd_keyed).
       fst (calculate_agent_score (skill_keywords argocd_keyed) ''hello'' (snd e)) \<le> 0"
    by code_simp
  have h2: "map_of (agents argocd_keyed) ''argocd'' = Some argocd_agent"
    by code_simp
  from h1 h2 fallback_selects_default[OF h1 h2, of "reply_network (HttpFailure [])"]
  show ?thesis by (simp add: list_all_iff)
qed

text \<open>
  With no agent registered the pipeline does not select anything: the look-up of the
  default key raises and the failure envelope comes back. With an agent registered under
  the key \<open>argocd\<close> and a request that matches nothing, the confidence is 0.06, not 0.3.
\<close>

theorem fallback_counterexample:
  "process_request (reply_network (HttpFailure [])) no_agents ''hello''
     = Failure ''hello'' (KeyError ''argocd'')
   \<and> env_confidence (process_request (reply_network (HttpFailure [])) argocd_keyed ''hello'')
       = 3 / 50
   \<and> env_confidence (process_request (reply_network (HttpFailure [])) argocd_keyed ''hello'')
       \<noteq> 3 / 10"
  by code_simp

text \<open>
  Claim C9. When no agent scores above 0 and no entry has the key \<open>argocd\<close>, the identity
  that the analysis falls back to is not in the registry: the look-up raises
  \<open>KeyError\<close>, \<open>process_request\<close> catches it and returns the envelope with
  \<open>success: False\<close> and the error.
\<close>

theorem missing_default_is_caught:
  assumes "\<forall>e \<in> set (agents st). fst (calculate_agent_score (skill_keywords st) req (snd e)) \<le> 0"
    and "map_of (agents st) ''argocd'' = None"
  shows "process_request net st req = Failure req (KeyError ''argocd'')
     \<and> \<not> success (process_request net st req)"
proof -
  obtain scores ms where sel: "select_agent st req = (None, 0, scores, ms)"
    using analyze_fallback[OF assms(1)] by blast
  have "analyze_request st (initial_state req) = Inl (KeyError ''argocd'')"
    by (simp add: analyze_request_def initial_state_def sel generate_reasoning_def assms(2) bind_def)
  then show ?thesis by (simp add: process_request_def bind_def)
qed

theorem missing_default_is_caught_witness:
  "list_all (\<lambda>e. fst (calculate_agent_score (skill_keywords currency_only) ''hello'' (snd e)) \<le> 0)
     (agents currency_only)
   \<and> map_of (agents currency_only) ''argocd'' = None
   \<and> process_request (reply_network (HttpOk (text_message ''hi''))) currency_only ''hello''
       = Failure ''hello'' (KeyError ''argocd'')
   \<and> \<not> success (process_request (reply_network (HttpOk (text_message ''hi''))) currency_only ''hello'')"
proof -
  have h1: "\<forall>e \<in> set (agents currency_only).
       fst (calculate_agent_score (skill_keywords currency_only) ''hello'' (snd e)) \<le> 0"
    by code_simp
  have h2: "map_of (agents currency_only) ''argocd'' = None"
    by code_simp
  from h1 h2
    missing_default_is_caught[OF h1 h2, of "reply_network (HttpOk (text_message ''hi''))"]
  show ?thesis by (simp add: list_all_iff)
qed

section \<open>The poll loop\<close>

lemma keys_map_of_None: "k \<notin> set (keys d) \<longleftrightarrow> map_of d k = None"
  by (simp add: keys_def map_of_eq_None_iff)

lemma task_outcome_reported:
  assumes "reported_state r = Some s"
  shows "\<exists>body task. r = HttpOk body \<and> py_getitem body ''result'' = Inr task \<and>
     bind (http_body r) task_outcome =
       (if s = ''completed'' then bind (completed_text task) (\<lambda>t. Inr (Some t))
        else if s = ''failed'' then Inr (Some (JStr ''Agent task failed''))
        else if s = ''input-required'' then bind (input_required_text task) (\<lambda>t. Inr (Some t))
        else Inr None)"
proof -
  from assms obtain items where r: "r = HttpOk (JObj items)"
    by (cases r rule: reported_state.cases) auto
  from assms r obtain task where t: "map_of items ''result'' = Some (JObj task)"
    by (auto split: option.splits json.splits)
  from assms r t obtain stat where st: "map_of task ''status'' = Some (JObj stat)"
    by (auto split: option.splits json.splits)
  from assms r t st have state: "map_of stat ''state'' = Some (JStr s)"
    by (auto split: option.splits json.splits)
  have ne: "task \<noteq> []" using st by auto
  have inres: "''result'' \<in> set (keys items)"
    using t keys_map_of_None[of "''result''" items] by auto
  show ?thesis
    by (simp add: r t st state ne inres task_outcome_def bind_def dict_get_def)
qed

lemma still_running_outcome:
  "still_running r \<Longrightarrow> bind (http_body r) task_outcome = Inr None"
  using task_outcome_reported[of r]
  by (auto simp: still_running_def split: option.splits)

lemma failed_outcome:
  "reported_state r = Some ''failed'' \<Longrightarrow>
     bind (http_body r) task_outcome = Inr (Some (JStr ''Agent task failed''))"
  using task_outcome_reported[of r "''failed''"] by auto

lemma poll_loop_running:
  "(\<forall>attempt \<in> set as. still_running (replies attempt)) \<Longrightarrow>
     poll_loop replies task_id (as @ rest)
       = (fst (poll_loop replies task_id rest),
          concat (replicate (length as) [Sleep 1, PostGet task_id])
            @ snd (poll_loop replies task_id rest))"
  by (induction as) (auto simp: still_running_outcome split: prod.splits)

text \<open>Whatever the remote answers, the loop makes at most 30 attempts: the forwarder
  posts once, and then sleeps and posts at most 30 times.\<close>

lemma poll_loop_bounded:
  "poll_loop replies task_id as = (res, events) \<Longrightarrow> length events \<le> 2 * length as"
  by (induction as arbitrary: res events) (auto split: sum.splits option.splits prod.splits)

lemma forward_bounded: "length (snd (forward_request_to_agent net endpoint req)) \<le> 61"
proof -
  have "length (snd (forward_try r)) \<le> 61" for r
    by (auto simp: forward_try_def split: sum.splits send_outcome.splits prod.splits
        dest!: poll_loop_bounded)
  from this[of "net endpoint req"] show ?thesis
    by (auto simp: forward_request_to_agent_def split: prod.splits sum.splits)
qed

text \<open>
  Claim C5. When \<open>message/send\<close> created a task and each of the 30 polls reports a state
  other than \<open>completed\<close>, \<open>failed\<close> and \<open>input-required\<close>, the forwarder sleeps
  one second before each poll, polls exactly 30 times and then returns the time-out
  text. The forwarder is a total function, so it returns on every input.
\<close>

theorem poll_loop_times_out:
  assumes "send_reply (net endpoint req) = HttpOk body"
    and "message_outcome body = Inr (PollTask task_id)"
    and "\<forall>attempt < 30. still_running (task_reply (net endpoint req) task_id attempt)"
  shows "forward_request_to_agent net endpoint req
           = (Inr (JStr ''Task did not complete within timeout''),
              PostSend # concat (replicate 30 [Sleep 1, PostGet task_id]))"
proof -
  have "poll_loop (task_reply (net endpoint req) task_id) task_id ([0..<30] @ [])
      = (Inr (JStr ''Task did not complete within timeout''),
         concat (replicate 30 [Sleep 1, PostGet task_id]))"
    using assms(3) by (subst poll_loop_running) auto
  then show ?thesis
    by (simp add: forward_request_to_agent_def forward_try_def assms(1,2) bind_def)
qed

theorem poll_loop_times_out_witness:
  "send_reply (task_network (\<lambda>attempt. ''working'') ''http://localhost:8002'' ''hello'')
     = HttpOk (task_body ''submitted'')
   \<and> message_outcome (task_body ''submitted'') = Inr (PollTask (JStr ''task-1''))
   \<and> list_all (\<lambda>attempt. still_running
         (task_reply (task_network (\<lambda>attempt. ''working'') ''http://localhost:8002'' ''hello'')
            (JStr ''task-1'') attempt)) [0..<30]
   \<and> forward_request_to_agent (task_network (\<lambda>attempt. ''working'')) ''http://localhost:8002'' ''hello''
       = (Inr (JStr ''Task did not complete within timeout''),
          PostSend # concat (replicate 30 [Sleep 1, PostGet (JStr ''task-1'')]))"
proof -
  have h1: "send_reply (task_network (\<lambda>attempt. ''working'') ''http://localhost:8002'' ''hello'')
     = HttpOk (task_body ''submitted'')"
    by (simp add: task_network_def)
  have h2: "message_outcome (task_body ''submitted'') = Inr (PollTask (JStr ''task-1''))"
    by code_simp
  have h3: "\<forall>attempt < 30. still_running
         (task_reply (task_network (\<lambda>attempt. ''working'') ''http://localhost:8002'' ''hello'')
            (JStr ''task-1'') attempt)"
    by (simp add: task_network_def task_body_def still_running_def)
  from h1 h2 h3
    poll_loop_times_out[of "task_network (\<lambda>attempt. ''working'')" "''http://localhost:8002''"
      "''hello''" "task_body ''submitted''" "JStr ''task-1''"]
  show ?thesis by (simp add: list_all_iff)
qed

lemma poll_loop_failed:
  assumes "k < 30"
    and "\<forall>attempt < k. still_running (replies attempt)"
    and "reported_state (replies k) = Some ''failed''"
  shows "fst (poll_loop replies task_id [0..<30]) = Inr (JStr ''Agent task failed'')"
proof -
  have split: "[0..<30] = [0..<k] @ (k # [Suc k..<30])"
    using assms(1) by (metis less_imp_le_nat upt_add_eq_append upt_conv_Cons le0 le_add_diff_inverse)
  have "poll_loop replies task_id (k # [Suc k..<30])
      = (Inr (JStr ''Agent task failed''), [Sleep 1, PostGet task_id])"
    using failed_outcome[OF assms(3)] by simp
  then show ?thesis
    using assms(2) unfolding split by (subst poll_loop_running) auto
qed

section \<open>Failures of forwarding\<close>

lemma forward_http_status:
  "send_reply (net endpoint req) = HttpStatus code body_text \<Longrightarrow>
     forward_request_to_agent net endpoint req
       = (Inl (Exception (HttpErrorMessage code body_text)), [PostSend])"
  by (simp add: forward_request_to_agent_def forward_try_def bind_def)

lemma forward_http_failure:
  "send_reply (net endpoint req) = HttpFailure msg \<Longrightarrow>
     forward_request_to_agent net endpoint req
       = (Inl (Exception (RequestForwardingFailed (RequestError msg))), [PostSend])"
  by (simp add: forward_request_to_agent_def forward_try_def bind_def)

lemma forward_error_field:
  "send_reply (net endpoint req) = HttpOk (JObj items) \<Longrightarrow> map_of items ''error'' = Some err \<Longrightarrow>
     forward_request_to_agent net endpoint req
       = (Inl (Exception (RequestForwardingFailed (Exception (AgentReturnedError err)))), [PostSend])"
  using keys_map_of_None[of "''error''" items]
  by (simp add: forward_request_to_agent_def forward_try_def bind_def message_outcome_def)

lemma forward_no_result:
  "send_reply (net endpoint req) = HttpOk (JObj items) \<Longrightarrow> map_of items ''error'' = None \<Longrightarrow>
   map_of items ''result'' = None \<Longrightarrow>
     forward_request_to_agent net endpoint req
       = (Inl (Exception (RequestForwardingFailed (Exception NoResultInAgentResponse))), [PostSend])"
  using keys_map_of_None[of "''error''" items] keys_map_of_None[of "''result''" items]
  by (simp add: forward_request_to_agent_def forward_try_def bind_def message_outcome_def)

lemma forward_unrecognized:
  "send_reply (net endpoint req) = HttpOk (JObj items) \<Longrightarrow> map_of items ''error'' = None \<Longrightarrow>
   map_of items ''result'' = Some res \<Longrightarrow> unrecognized_shape res \<Longrightarrow>
     forward_request_to_agent net endpoint req
       = (Inr (JStr ''Unexpected response format from agent''), [PostSend])"
  using keys_map_of_None[of "''error''" items] keys_map_of_None[of "''result''" items]
  by (cases res)
     (auto simp: forward_request_to_agent_def forward_try_def bind_def message_outcome_def)

lemma poll_loop_raises:
  assumes "k < 30"
    and "\<forall>attempt < k. still_running (replies attempt)"
    and "http_body (replies k) = Inl e"
  shows "fst (poll_loop replies task_id [0..<30]) = Inl e"
proof -
  have split: "[0..<30] = [0..<k] @ (k # [Suc k..<30])"
    using assms(1) by (metis less_imp_le_nat upt_add_eq_append upt_conv_Cons le0 le_add_diff_inverse)
  have "poll_loop replies task_id (k # [Suc k..<30]) = (Inl e, [Sleep 1, PostGet task_id])"
    using assms(3) by (simp add: bind_def)
  then show ?thesis
    using assms(2) unfolding split by (subst poll_loop_running) auto
qed

lemma forward_poll_raises:
  assumes "send_reply (net endpoint req) = HttpOk body"
    and "message_outcome body = Inr (PollTask task_id)"
    and "k < 30"
    and "\<forall>attempt < k. still_running (task_reply (net endpoint req) task_id attempt)"
    and "http_body (task_reply (net endpoint req) task_id k) = Inl e"
  shows "fst (forward_request_to_agent net endpoint req) = Inl (forward_except e)"
proof -
  have "fst (poll_loop (task_reply (net endpoint req) task_id) task_id [0..<30]) = Inl e"
    using assms(3,4,5) by (rule poll_loop_raises)
  then show ?thesis
    by (auto simp: forward_request_to_agent_def forward_try_def assms(1,2) bind_def
        split: prod.splits sum.splits)
qed

text \<open>
  Claim C8, as the code has it. In the exchange of \<open>message/send\<close>, a reply on which
  \<open>raise_for_status\<close> raises, a failed exchange, a JSON object with an \<open>error\<close> field
  and a JSON object without a \<open>result\<close> field make the forwarder raise an exception. A
  \<open>result\<close> of a shape that is neither a task nor a message does not: the forwarder
  returns the text \<open>Unexpected response format from agent\<close>. In the poll loop, after
  polls that report a running state, a reply on which \<open>raise_for_status\<close> raises and a
  failed exchange make the forwarder raise as well. Nothing is stated here about an
  \<open>error\<close> field or a missing \<open>result\<close> in a reply to \<open>tasks/get\<close>.
\<close>

theorem forwarding_failures:
  "(send_reply (net endpoint req) = HttpStatus code body_text \<longrightarrow>
      fst (forward_request_to_agent net endpoint req)
        = Inl (Exception (HttpErrorMessage code body_text)))
   \<and> (send_reply (net endpoint req) = HttpFailure msg \<longrightarrow>
      fst (forward_request_to_agent net endpoint req)
        = Inl (Exception (RequestForwardingFailed (RequestError msg))))
   \<and> (send_reply (net endpoint req) = HttpOk (JObj items) \<and> map_of items ''error'' = Some err \<longrightarrow>
      fst (forward_request_to_agent net endpoint req)
        = Inl (Exception (RequestForwardingFailed (Exception (AgentReturnedError err)))))
   \<and> (send_reply (net endpoint req) = HttpOk (JObj items) \<and> map_of items ''error'' = None
        \<and> map_of items ''result'' = None \<longrightarrow>
      fst (forward_request_to_agent net endpoint req)
        = Inl (Exception (RequestForwardingFailed (Exception NoResultInAgentResponse))))
   \<and> (send_reply (net endpoint req) = HttpOk (JObj items) \<and> map_of items ''error'' = None
        \<and> map_of items ''result'' = Some res \<and> unrecognized_shape res \<longrightarrow>
      fst (forward_request_to_agent net endpoint req)
        = Inr (JStr ''Unexpected response format from agent''))
   \<and> (send_reply (net endpoint req) = HttpOk body
        \<and> message_outcome body = Inr (PollTask task_id) \<and> k < 30
        \<and> (\<forall>attempt < k. still_running (task_reply (net endpoint req) task_id attempt))
        \<and> task_reply (net endpoint req) task_id k = HttpStatus code body_text \<longrightarrow>
      fst (forward_request_to_agent net endpoint req)
        = Inl (Exception (HttpErrorMessage code body_text)))
   \<and> (send_reply (net endpoint req) = HttpOk body
        \<and> message_outcome body = Inr (PollTask task_id) \<and> k < 30
        \<and> (\<forall>attempt < k. still_running (task_reply (net endpoint req) task_id attempt))
        \<and> task_reply (net endpoint req) task_id k = HttpFailure msg \<longrightarrow>
      fst (forward_request_to_agent net endpoint req)
        = Inl (Exception (RequestForwardingFailed (RequestError msg))))"
proof -
  have poll_status: "fst (forward_request_to_agent net endpoint req)
        = Inl (Exception (HttpErrorMessage code body_text))"
    if "send_reply (net endpoint req) = HttpOk body"
      "message_outcome body = Inr (PollTask task_id)" "k < 30"
      "\<forall>attempt < k. still_running (task_reply (net endpoint req) task_id attempt)"
      "task_reply (net endpoint req) task_id k = HttpStatus code body_text"
    using forward_poll_raises[of net endpoint req body task_id k "HTTPStatusError code body_text"] that
    by simp
  have poll_failure: "fst (forward_request_to_agent net endpoint req)
        = Inl (Exception (RequestForwardingFailed (RequestError msg)))"
    if "send_reply (net endpoint req) = HttpOk body"
      "message_outcome body = Inr (PollTask task_id)" "k < 30"
      "\<forall>attempt < k. still_running (task_reply (net endpoint req) task_id attempt)"
      "task_reply (net endpoint req) task_id k = HttpFailure msg"
    using forward_poll_raises[of net endpoint req body task_id k "RequestError msg"] that
    by simp
  from poll_status poll_failure show ?thesis
    by (simp add: forward_http_status forward_http_failure forward_error_field forward_no_result
      forward_unrecognized)
qed

theorem forwarding_failures_witness:
  "send_reply (reply_network (HttpStatus 500 ''Internal Server Error'') ''e'' ''r'')
      = HttpStatus 500 ''Internal Server Error''
   \<and> fst (forward_request_to_agent (reply_network (HttpStatus 500 ''Internal Server Error'')) ''e'' ''r'')
      = Inl (Exception (HttpErrorMessage 500 ''Internal Server Error''))
   \<and> send_reply (reply_network (HttpFailure ''refused'') ''e'' ''r'') = HttpFailure ''refused''
   \<and> fst (forward_request_to_agent (reply_network (HttpFailure ''refused'')) ''e'' ''r'')
      = Inl (Exception (RequestForwardingFailed (RequestError ''refused'')))
   \<and> send_reply (reply_network (HttpOk (JObj [(''error'', JStr ''bad'')])) ''e'' ''r'')
      = HttpOk (JObj [(''error'', JStr ''bad'')])
   \<and> map_of [(''error'', JStr ''bad'')] ''error'' = Some (JStr ''bad'')
   \<and> fst (forward_request_to_agent (reply_network (HttpOk (JObj [(''error'', JStr ''bad'')]))) ''e'' ''r'')
      = Inl (Exception (RequestForwardingFailed (Exception (AgentReturnedError (JStr ''bad'')))))
   \<and> send_reply (reply_network (HttpOk (JObj [])) ''e'' ''r'') = HttpOk (JObj [])
   \<and> map_of ([] :: (string \<times> json) list) ''error'' = None
   \<and> map_of ([] :: (string \<times> json) list) ''result'' = None
   \<and> fst (forward_request_to_agent (reply_network (HttpOk (JObj []))) ''e'' ''r'')
      = Inl (Exception (RequestForwardingFailed (Exception NoResultInAgentResponse)))
   \<and> send_reply (reply_network (HttpOk (JObj [(''result'', JStr ''hi'')])) ''e'' ''r'')
      = HttpOk (JObj [(''result'', JStr ''hi'')])
   \<and> map_of [(''result'', JStr ''hi'')] ''error'' = None
   \<and> map_of [(''result'', JStr ''hi'')] ''result'' = Some (JStr ''hi'')
   \<and> unrecognized_shape (JStr ''hi'')
   \<and> fst (forward_request_to_agent (reply_network (HttpOk (JObj [(''result'', JStr ''hi'')]))) ''e'' ''r'')
      = Inr (JStr ''Unexpected response format from agent'')
   \<and> send_reply (poll_network (working_then 2 (HttpStatus 503 ''Service Unavailable'')) ''e'' ''r'')
      = HttpOk (task_body ''submitted'')
   \<and> message_outcome (task_body ''submitted'') = Inr (PollTask (JStr ''task-1''))
   \<and> (2::nat) < 30
   \<and> list_all (\<lambda>attempt. still_running
         (task_reply (poll_network (working_then 2 (HttpStatus 503 ''Service Unavailable'')) ''e'' ''r'')
            (JStr ''task-1'') attempt)) [0..<2]
   \<and> task_reply (poll_network (working_then 2 (HttpStatus 503 ''Service Unavailable'')) ''e'' ''r'')
         (JStr ''task-1'') 2 = HttpStatus 503 ''Service Unavailable''
   \<and> fst (forward_request_to_agent
            (poll_network (working_then 2 (HttpStatus 503 ''Service Unavailable''))) ''e'' ''r'')
      = Inl (Exception (HttpErrorMessage 503 ''Service Unavailable''))
   \<and> send_reply (poll_network (working_then 2 (HttpFailure ''timed out'')) ''e'' ''r'')
      = HttpOk (task_body ''submitted'')
   \<and> list_all (\<lambda>attempt. still_running
         (task_reply (poll_network (working_then 2 (HttpFailure ''timed out'')) ''e'' ''r'')
            (JStr ''task-1'') attempt)) [0..<2]
   \<and> task_reply (poll_network (working_then 2 (HttpFailure ''timed out'')) ''e'' ''r'')
         (JStr ''task-1'') 2 = HttpFailure ''timed out''
   \<and> fst (forward_request_to_agent (poll_network (working_then 2 (HttpFailure ''timed out''))) ''e'' ''r'')
      = Inl (Exception (RequestForwardingFailed (RequestError ''timed out'')))"
proof -
  have r: "send_reply (reply_network reply ''e'' ''r'') = reply" for reply
    by (simp add: reply_network_def)
  have m1: "map_of [(''error'', JStr ''bad'')] ''error'' = Some (JStr ''bad'')" by simp
  have m2: "map_of ([] :: (string \<times> json) list) k = None" for k by simp
  have m3: "map_of [(''result'', JStr ''hi'')] ''error'' = None" by simp
  have m4: "map_of [(''result'', JStr ''hi'')] ''result'' = Some (JStr ''hi'')" by simp
  have u: "unrecognized_shape (JStr ''hi'')" by simp
  have p1: "send_reply (poll_network replies ''e'' ''r'') = HttpOk (task_body ''submitted'')"
    for replies by (simp add: poll_network_def)
  have p2: "message_outcome (task_body ''submitted'') = Inr (PollTask (JStr ''task-1''))"
    by code_simp
  have p3: "(2::nat) < 30" by simp
  have p4: "\<forall>attempt < 2. still_running
         (task_reply (poll_network (working_then 2 reply) ''e'' ''r'') (JStr ''task-1'') attempt)"
    for reply
    by (simp add: poll_network_def working_then_def task_body_def still_running_def)
  have l4: "list_all (\<lambda>attempt. still_running
         (task_reply (poll_network (working_then 2 reply) ''e'' ''r'') (JStr ''task-1'') attempt))
         [0..<2]" for reply
    using p4[of reply] by (simp add: list_all_iff)
  have p5: "task_reply (poll_network (working_then 2 reply) ''e'' ''r'') (JStr ''task-1'') 2 = reply"
    for reply by (simp add: poll_network_def working_then_def)
  note t = forwarding_failures
  have a: "fst (forward_request_to_agent
            (poll_network (working_then 2 (HttpStatus 503 ''Service Unavailable''))) ''e'' ''r'')
      = Inl (Exception (HttpErrorMessage 503 ''Service Unavailable''))"
    using p1 p2 p3 p4 p5
      t[of "poll_network (working_then 2 (HttpStatus 503 ''Service Unavailable''))" "''e''" "''r''"
           503 "''Service Unavailable''" _ _ _ _ "task_body ''submitted''" "JStr ''task-1''" 2]
    by simp
  have b: "fst (forward_request_to_agent (poll_network (working_then 2 (HttpFailure ''timed out''))) ''e'' ''r'')
      = Inl (Exception (RequestForwardingFailed (RequestError ''timed out'')))"
    using p1 p2 p3 p4 p5
      t[of "poll_network (working_then 2 (HttpFailure ''timed out''))" "''e''" "''r''"
           _ _ "''timed out''" _ _ _ "task_body ''submitted''" "JStr ''task-1''" 2]
    by simp
  from r m1 m2 m3 m4 u p1 p2 p3 l4 p5 a b
    t[of "reply_network (HttpStatus 500 ''Internal Server Error'')" "''e''" "''r''" 500
         "''Internal Server Error''"]
    t[of "reply_network (HttpFailure ''refused'')" "''e''" "''r''" _ _ "''refused''"]
    t[of "reply_network (HttpOk (JObj [(''error'', JStr ''bad'')]))" "''e''" "''r''" _ _ _
         "[(''error'', JStr ''bad'')]" "JStr ''bad''"]
    t[of "reply_network (HttpOk (JObj []))" "''e''" "''r''" _ _ _ "[]"]
    t[of "reply_network (HttpOk (JObj [(''result'', JStr ''hi'')]))" "''e''" "''r''" _ _ _
         "[(''result'', JStr ''hi'')]" _ "JStr ''hi''"]
  show ?thesis by simp
qed

text \<open>
  The reply \<open>{"result": "hi"}\<close> to \<open>message/send\<close> has an unrecognized result shape;
  the forwarder returns a plain string and raises nothing. And when every reply to
  \<open>tasks/get\<close> is \<open>{"error": "bad"}\<close>, the loop reads no error field: it polls 30
  times and the forwarder returns the time-out text.
\<close>

theorem unrecognized_shape_counterexample:
  "forward_request_to_agent (reply_network (HttpOk (JObj [(''result'', JStr ''hi'')])))
     ''http://localhost:8002'' ''hello''
   = (Inr (JStr ''Unexpected response format from agent''), [PostSend])
   \<and> fst (forward_request_to_agent
            (poll_network (\<lambda>attempt. HttpOk (JObj [(''error'', JStr ''bad'')])))
            ''http://localhost:8002'' ''hello'')
      = Inr (JStr ''Task did not complete within timeout'')"
  by code_simp


section \<open>Forwarding inside the pipeline\<close>

lemma currency_analysis:
  "analyze_request currency_only (initial_state ''how much is 10 USD in INR?'') = Inr currency_decision"
  by code_simp

lemma currency_lookup: "map_of (agents currency_only) (selected_agent currency_decision) = Some currency_agent"
  by code_simp

text \<open>
  Claim C4, as the code has it. When the analysis has selected a registered agent and the
  forwarder raises, the pipeline does not abort: it returns the envelope with
  \<open>success: True\<close>, the selected agent, its name, the confidence and the reasoning, a
  response text that reports the routing decision together with the forwarding error,
  and the status \<open>routing_only\<close>. For a reply with an error status the error is the
  \<open>HTTP error\<close> exception with the status code and the body text.
\<close>

theorem forwarding_failure_keeps_decision:
  assumes "analyze_request st (initial_state req) = Inr s"
    and "map_of (agents st) (selected_agent s) = Some acard"
    and "fst (forward_request_to_agent net (card_url acard) req) = Inl e"
  shows "process_request net st req =
           Success req (selected_agent s) (card_name acard) (map skill_name (card_skills acard))
             (confidence s) (reasoning s)
             (RoutingDecision (card_name acard) (card_url acard) (confidence s) (reasoning s) e)
             ((metadata s)\<lparr>agent_endpoint := Some (card_url acard),
                            status := Some ''routing_only''\<rparr>)
         \<and> success (process_request net st req)
         \<and> (send_reply (net (card_url acard) req) = HttpStatus code body_text \<longrightarrow>
              e = Exception (HttpErrorMessage code body_text))"
proof -
  have "e = Exception (HttpErrorMessage code body_text)"
    if "send_reply (net (card_url acard) req) = HttpStatus code body_text"
    using forward_http_status[of net "card_url acard" req code body_text] that assms(3) by simp
  then show ?thesis
    using process_request_routed[OF assms(1,2), of net] by (simp add: assms(3))
qed

theorem forwarding_failure_keeps_decision_witness:
  "analyze_request currency_only (initial_state ''how much is 10 USD in INR?'') = Inr currency_decision
   \<and> map_of (agents currency_only) (selected_agent currency_decision) = Some currency_agent
   \<and> fst (forward_request_to_agent (reply_network (HttpStatus 500 ''Internal Server Error''))
            (card_url currency_agent) ''how much is 10 USD in INR?'')
       = Inl (Exception (HttpErrorMessage 500 ''Internal Server Error''))
   \<and> send_reply (reply_network (HttpStatus 500 ''Internal Server Error'') (card_url currency_agent)
         ''how much is 10 USD in INR?'') = HttpStatus 500 ''Internal Server Error''
   \<and> process_request (reply_network (HttpStatus 500 ''Internal Server Error'')) currency_only
        ''how much is 10 USD in INR?''
      = Success ''how much is 10 USD in INR?'' ''Currency Agent'' ''Currency Agent''
          [''currency_exchange''] (7 / 10)
          ''Selected Currency Agent based on keywords: usd, inr and skills: currency_exchange''
          (RoutingDecision ''Currency Agent'' ''http://localhost:8002'' (7 / 10)
             ''Selected Currency Agent based on keywords: usd, inr and skills: currency_exchange''
             (Exception (HttpErrorMessage 500 ''Internal Server Error'')))
          \<lparr>agent_scores = [(''Currency Agent'', 7 / 2)],
           skill_matches = [(''Currency Agent'', [''currency_exchange''])],
           agent_endpoint = Some ''http://localhost:8002'', status = Some ''routing_only''\<rparr>"
proof -
  have h3: "fst (forward_request_to_agent (reply_network (HttpStatus 500 ''Internal Server Error''))
            (card_url currency_agent) ''how much is 10 USD in INR?'')
       = Inl (Exception (HttpErrorMessage 500 ''Internal Server Error''))"
    by code_simp
  have h4: "send_reply (reply_network (HttpStatus 500 ''Internal Server Error'') (card_url currency_agent)
         ''how much is 10 USD in INR?'') = HttpStatus 500 ''Internal Server Error''"
    by (simp add: reply_network_def)
  from currency_analysis currency_lookup h3 h4
    forwarding_failure_keeps_decision[OF currency_analysis currency_lookup h3]
  show ?thesis
    by (simp add: currency_decision_def currency_agent_def currency_skill_def initial_state_def)
qed

text \<open>The endpoint of the selected agent answers with status 500; the envelope has
  \<open>success: True\<close>.\<close>

theorem http_500_counterexample:
  "success (process_request (reply_network (HttpStatus 500 ''Internal Server Error'')) currency_only
        ''how much is 10 USD in INR?'')"
  by code_simp

text \<open>
  Claim C10. When the task that \<open>message/send\<close> created reports \<open>failed\<close> at some poll
  (and a running state at every poll before), the forwarder returns the text
  \<open>Agent task failed\<close> as its response, the route stage records the status
  \<open>completed\<close> and the pipeline returns \<open>success: True\<close>: the envelope is the one
  returned when the agent answers at once with the text message \<open>Agent task failed\<close>.
\<close>

theorem failed_task_reads_as_success:
  assumes "analyze_request st (initial_state req) = Inr s"
    and "map_of (agents st) (selected_agent s) = Some acard"
    and "send_reply (net (card_url acard) req) = HttpOk body"
    and "message_outcome body = Inr (PollTask task_id)"
    and "k < 30"
    and "\<forall>attempt < k. still_running (task_reply (net (card_url acard) req) task_id attempt)"
    and "reported_state (task_reply (net (card_url acard) req) task_id k) = Some ''failed''"
  shows "fst (forward_request_to_agent net (card_url acard) req) = Inr (JStr ''Agent task failed'')
     \<and> process_request net st req =
         Success req (selected_agent s) (card_name acard) (map skill_name (card_skills acard))
           (confidence s) (reasoning s) (RoutedTo (card_name acard) (JStr ''Agent task failed''))
           ((metadata s)\<lparr>agent_endpoint := Some (card_url acard), status := Some ''completed''\<rparr>)
     \<and> success (process_request net st req)
     \<and> process_request net st req
         = process_request (reply_network (HttpOk (text_message ''Agent task failed''))) st req"
proof -
  have "fst (poll_loop (task_reply (net (card_url acard) req) task_id) task_id [0..<30])
          = Inr (JStr ''Agent task failed'')"
    using assms(5,6,7) by (rule poll_loop_failed)
  then have fwd: "fst (forward_request_to_agent net (card_url acard) req) = Inr (JStr ''Agent task failed'')"
    by (auto simp: forward_request_to_agent_def forward_try_def assms(3,4) bind_def split: prod.splits sum.splits)
  have msg: "message_outcome (text_message ''Agent task failed'') = Inr (Respond (JStr ''Agent task failed''))"
    by code_simp
  have fwd2: "fst (forward_request_to_agent (reply_network (HttpOk (text_message ''Agent task failed'')))
                (card_url acard) req) = Inr (JStr ''Agent task failed'')"
    by (simp add: forward_request_to_agent_def forward_try_def reply_network_def bind_def msg)
  show ?thesis
    using process_request_routed[OF assms(1,2), of net]
      process_request_routed[OF assms(1,2), of "reply_network (HttpOk (text_message ''Agent task failed''))"]
    by (simp add: fwd fwd2)
qed

theorem failed_task_reads_as_success_witness:
  "analyze_request currency_only (initial_state ''how much is 10 USD in INR?'') = Inr currency_decision
   \<and> map_of (agents currency_only) (selected_agent currency_decision) = Some currency_agent
   \<and> send_reply (task_network (failing_after 3) (card_url currency_agent) ''how much is 10 USD in INR?'')
       = HttpOk (task_body ''submitted'')
   \<and> message_outcome (task_body ''submitted'') = Inr (PollTask (JStr ''task-1''))
   \<and> (3::nat) < 30
   \<and> list_all (\<lambda>attempt. still_running (task_reply (task_network (failing_after 3)
          (card_url currency_agent) ''how much is 10 USD in INR?'') (JStr ''task-1'') attempt)) [0..<3]
   \<and> reported_state (task_reply (task_network (failing_after 3) (card_url currency_agent)
          ''how much is 10 USD in INR?'') (JStr ''task-1'') 3) = Some ''failed''
   \<and> fst (forward_request_to_agent (task_network (failing_after 3)) (card_url currency_agent)
         ''how much is 10 USD in INR?'') = Inr (JStr ''Agent task failed'')
   \<and> success (process_request (task_network (failing_after 3)) currency_only ''how much is 10 USD in INR?'')
   \<and> process_request (task_network (failing_after 3)) currency_only ''how much is 10 USD in INR?''
       = process_request (reply_network (HttpOk (text_message ''Agent task failed''))) currency_only
           ''how much is 10 USD in INR?''"
proof -
  have h3: "send_reply (task_network (failing_after 3) (card_url currency_agent) ''how much is 10 USD in INR?'')
       = HttpOk (task_body ''submitted'')"
    by (simp add: task_network_def)
  have h4: "message_outcome (task_body ''submitted'') = Inr (PollTask (JStr ''task-1''))"
    by code_simp
  have h5: "(3::nat) < 30" by simp
  have h6: "\<forall>attempt < 3. still_running (task_reply (task_network (failing_after 3) (card_url currency_agent)
          ''how much is 10 USD in INR?'') (JStr ''task-1'') attempt)"
    by (simp add: task_network_def task_body_def still_running_def failing_after_def)
  have h7: "reported_state (task_reply (task_network (failing_after 3) (card_url currency_agent)
          ''how much is 10 USD in INR?'') (JStr ''task-1'') 3) = Some ''failed''"
    by (simp add: task_network_def task_body_def failing_after_def)
  have l6: "list_all (\<lambda>attempt. still_running (task_reply (task_network (failing_after 3)
          (card_url currency_agent) ''how much is 10 USD in INR?'') (JStr ''task-1'') attempt)) [0..<3]"
    using h6 by (simp add: list_all_iff)
  from currency_analysis currency_lookup h3 h4 h5 h6 l6 h7
    failed_task_reads_as_success[of currency_only "''how much is 10 USD in INR?''" currency_decision
      currency_agent "task_network (failing_after 3)" "task_body ''submitted''" "JStr ''task-1''" 3]
  show ?thesis by blast
qed


end
